theory Spec2Isabelle
  imports Main "HOL-Library.Sublist"
begin

section \<open>Python values\<close>

text \<open>
  A Python \<open>str\<close> is a \<open>string\<close>: one \<open>char\<close> per code point, which is exact for code
  points below 256. The request line and the request headers are decoded by
  \<open>http.server\<close> as ISO-8859-1, so \<open>self.path\<close> and the header mapping hold such strings
  only. A \<open>bytes\<close> value is a list of the same \<open>char\<close>s.

  An exception is the text \<open>str(e)\<close> it carries; the handlers of the program read nothing
  else of it.
\<close>

type_synonym bytes = string

datatype exn = Exn (exn_text: string)

definition startswith :: "string \<Rightarrow> string \<Rightarrow> bool" where
  "startswith s p = prefix p s"

definition endswith :: "string \<Rightarrow> string \<Rightarrow> bool" where
  "endswith s p = suffix p s"

text \<open>\<open>contains s sub\<close> is Python's \<open>sub in s\<close> on strings.\<close>

definition contains :: "string \<Rightarrow> string \<Rightarrow> bool" where
  "contains s sub = sublist sub s"

text \<open>
  \<open>str.lower\<close> on code points below 256: the ASCII capitals and the Latin-1 capitals
  \<open>0xC0..0xDE\<close> but the multiplication sign \<open>0xD7\<close> move up by 32.
\<close>

definition lower_char :: "char \<Rightarrow> char" where
  "lower_char c =
     (let n = (of_char c :: nat)
      in if (65 \<le> n \<and> n \<le> 90) \<or> (192 \<le> n \<and> n \<le> 222 \<and> n \<noteq> 215)
         then char_of (n + 32) else c)"

definition lower :: "string \<Rightarrow> string" where
  "lower s = map lower_char s"

text \<open>\<open>str(n)\<close> for a length: the decimal digits of a natural number.\<close>

fun str_nat :: "nat \<Rightarrow> string" where
  "str_nat n =
     (if n < 10 then [char_of (48 + n)]
      else str_nat (n div 10) @ [char_of (48 + n mod 10)])"

declare str_nat.simps [simp del]

text \<open>
  \<open>repr(s)\<close> of a string: double quotes when it holds a single quote and no double
  quote, single quotes otherwise; the backslash, the quote in use and the characters
  that are not printable are escaped.
\<close>

definition hexdigit :: "nat \<Rightarrow> char" where
  "hexdigit n = (if n < 10 then char_of (48 + n) else char_of (87 + n))"

definition repr_char :: "char \<Rightarrow> char \<Rightarrow> string" where
  "repr_char q c =
     (let n = (of_char c :: nat)
      in if c = CHR 0x5C then [CHR 0x5C, CHR 0x5C]
         else if c = q then [CHR 0x5C, c]
         else if c = CHR 0x09 then [CHR 0x5C, CHR ''t'']
         else if c = CHR 0x0A then [CHR 0x5C, CHR ''n'']
         else if c = CHR 0x0D then [CHR 0x5C, CHR ''r'']
         else if n < 32 \<or> n = 127 \<or> (128 \<le> n \<and> n \<le> 160) \<or> n = 173
           then [CHR 0x5C, CHR ''x'', hexdigit (n div 16), hexdigit (n mod 16)]
         else [c])"

definition py_repr :: "string \<Rightarrow> string" where
  "py_repr s =
     (let q = (if List.member s (CHR 0x27) \<and> \<not> List.member s (CHR 0x22)
               then CHR 0x22 else CHR 0x27)
      in [q] @ concat (map (repr_char q) s) @ [q])"

text \<open>\<open>s.lstrip(chars)\<close> and \<open>s.split(sep)\<close> for a separator of one character.\<close>

definition lstrip :: "string \<Rightarrow> string \<Rightarrow> string" where
  "lstrip s chars = dropWhile (\<lambda>c. List.member chars c) s"

fun split :: "string \<Rightarrow> char \<Rightarrow> string list" where
  "split [] sep = [[]]"
| "split (c # s) sep =
     (if c = sep then [] # split s sep
      else (case split s sep of w # ws \<Rightarrow> (c # w) # ws | [] \<Rightarrow> [[c]]))"

text \<open>\<open>sep.join(comps)\<close>.\<close>

fun join_str :: "string \<Rightarrow> string list \<Rightarrow> string" where
  "join_str sep [] = []"
| "join_str sep [w] = w"
| "join_str sep (w # v # ws) = w @ sep @ join_str sep (v # ws)"

section \<open>\<open>posixpath\<close>\<close>

text \<open>
  \<open>os.path.normpath\<close>: the loop over the components keeps the list \<open>new_comps\<close>; a
  \<open>..\<close> is kept when nothing precedes it in a relative path or when a kept \<open>..\<close>
  precedes it, it removes the component before it otherwise, and at the root it is dropped.
\<close>

fun normpath_loop :: "nat \<Rightarrow> string list \<Rightarrow> string list \<Rightarrow> string list" where
  "normpath_loop initial_slashes new_comps [] = new_comps"
| "normpath_loop initial_slashes new_comps (cmp # comps) =
     (if cmp = [] \<or> cmp = ''.'' then normpath_loop initial_slashes new_comps comps
      else if cmp \<noteq> ''..'' \<or> (initial_slashes = 0 \<and> new_comps = [])
              \<or> (new_comps \<noteq> [] \<and> last new_comps = ''..'')
        then normpath_loop initial_slashes (new_comps @ [cmp]) comps
      else if new_comps \<noteq> [] then normpath_loop initial_slashes (butlast new_comps) comps
      else normpath_loop initial_slashes new_comps comps)"

definition normpath :: "string \<Rightarrow> string" where
  "normpath path =
     (if path = [] then ''.''
      else
        let initial_slashes =
              (if startswith path ''/''
               then (if startswith path ''//'' \<and> \<not> startswith path ''///'' then 2 else 1)
               else (0::nat));
            comps = normpath_loop initial_slashes [] (split path (CHR ''/''));
            path1 = join_str ''/'' comps;
            path2 = replicate initial_slashes (CHR ''/'') @ path1
        in if path2 = [] then ''.'' else path2)"

text \<open>\<open>os.path.join(a, b)\<close>: an absolute second component discards the first.\<close>

definition path_join :: "string \<Rightarrow> string \<Rightarrow> string" where
  "path_join a b =
     (if startswith b ''/'' then b
      else if a = [] \<or> endswith a ''/'' then a @ b
      else a @ ''/'' @ b)"

section \<open>\<open>urllib.parse\<close>\<close>

text \<open>
  \<open>unquote\<close>: a \<open>%\<close> followed by two hexadecimal digits is the character of that code,
  any other \<open>%\<close> stays. Python decodes the escaped bytes as UTF-8 afterwards; the model
  keeps each byte as the character of the same code, which is the same string when every
  escape is below \<open>%80\<close>.
\<close>

definition hexval :: "char \<Rightarrow> nat option" where
  "hexval c =
     (let n = (of_char c :: nat)
      in if 48 \<le> n \<and> n \<le> 57 then Some (n - 48)
         else if 65 \<le> n \<and> n \<le> 70 then Some (n - 55)
         else if 97 \<le> n \<and> n \<le> 102 then Some (n - 87)
         else None)"

fun unquote :: "string \<Rightarrow> string" where
  "unquote (c # a # b # s) =
     (if c = CHR ''%'' then
        (case (hexval a, hexval b) of
           (Some x, Some y) \<Rightarrow> char_of (16 * x + y) # unquote s
         | _ \<Rightarrow> c # unquote (a # b # s))
      else c # unquote (a # b # s))"
| "unquote s = s"

definition scheme_chars :: string where
  "scheme_chars =
     ''abcdefghijklmnopqrstuvwxyzABCDEFGHIJKLMNOPQRSTUVWXYZ0123456789+-.''"

definition uses_params :: "string list" where
  "uses_params =
     ['''', ''ftp'', ''hdl'', ''prospero'', ''http'', ''imap'', ''https'', ''shttp'',
      ''rtsp'', ''rtsps'', ''rtspu'', ''sip'', ''sips'', ''mms'', ''sftp'', ''tel'']"

definition isascii_alpha :: "char \<Rightarrow> bool" where
  "isascii_alpha c =
     (let n = (of_char c :: nat) in (65 \<le> n \<and> n \<le> 90) \<or> (97 \<le> n \<and> n \<le> 122))"

text \<open>
  The scheme of \<open>urlsplit\<close>: with \<open>i\<close> the index of the first colon, \<open>url[:i]\<close> is a
  scheme when \<open>i > 0\<close>, the first character is an ASCII letter and every character of
  \<open>url[:i]\<close> is a scheme character. The result is the scheme and the rest of the URL.
\<close>

definition split_scheme :: "string \<Rightarrow> string \<times> string" where
  "split_scheme url =
     (let pre = takeWhile (\<lambda>c. c \<noteq> CHR '':'') url
      in if List.member url (CHR '':'') \<and> pre \<noteq> [] \<and> isascii_alpha (hd pre)
            \<and> list_all (\<lambda>c. List.member scheme_chars c) pre
         then (lower pre, drop (length pre + 1) url)
         else ([], url))"

text \<open>\<open>_splitnetloc(url, 2)\<close>: the network location ends at the first of \<open>/?#\<close>.\<close>

definition splitnetloc :: "string \<Rightarrow> string \<times> string" where
  "splitnetloc url =
     (let rest = drop 2 url;
          domain = takeWhile (\<lambda>c. \<not> List.member ''/?#'' c) rest
      in (domain, drop (length domain) rest))"

text \<open>
  \<open>_splitparams(url)[0]\<close>: the parameters start at the first semicolon of the last path
  segment (of the whole string when it has no slash).
\<close>

definition splitparams :: "string \<Rightarrow> string" where
  "splitparams url =
     (let seg = rev (takeWhile (\<lambda>c. c \<noteq> CHR ''/'') (rev url));
          pre = take (length url - length seg) url
      in pre @ takeWhile (\<lambda>c. c \<noteq> CHR '';'') seg)"

text \<open>
  \<open>urlparse(url).path\<close>. The leading C0 control characters and spaces are stripped, tabs
  and line breaks removed, then scheme, network location, fragment, query and parameters
  are split off. \<open>urlsplit\<close> raises \<open>ValueError\<close> for a network location with one
  bracket only; its two further validations of the network location
  (\<open>_check_bracketed_host\<close>, \<open>_checknetloc\<close>) are the parameter \<open>check_netloc\<close>, which
  gives the exception they raise, if any.
\<close>

definition urlparse_path :: "(string \<Rightarrow> exn option) \<Rightarrow> string \<Rightarrow> exn + string" where
  "urlparse_path check_netloc url0 =
     (let url1 = dropWhile (\<lambda>c. (of_char c :: nat) \<le> 32) url0;
          url2 = filter (\<lambda>c. c \<noteq> CHR 0x09 \<and> c \<noteq> CHR 0x0D \<and> c \<noteq> CHR 0x0A) url1;
          (scheme, url3) = split_scheme url2;
          located =
            (if take 2 url3 = ''//'' then
               (let (netloc, rest) = splitnetloc url3;
                    lb = List.member netloc (CHR ''['');
                    rb = List.member netloc (CHR '']'')
                in if (lb \<and> \<not> rb) \<or> (rb \<and> \<not> lb) then Inl (Exn ''Invalid IPv6 URL'')
                   else (case check_netloc netloc of
                           Some e \<Rightarrow> Inl e
                         | None \<Rightarrow> Inr rest))
             else Inr url3)
      in case located of
           Inl e \<Rightarrow> Inl e
         | Inr url4 \<Rightarrow>
             (let url5 = takeWhile (\<lambda>c. c \<noteq> CHR ''#'') url4;
                  url6 = takeWhile (\<lambda>c. c \<noteq> CHR ''?'') url5
              in Inr (if List.member uses_params scheme \<and> List.member url6 (CHR '';'')
                      then splitparams url6 else url6)))"

section \<open>The environment of a request\<close>

text \<open>
  A \<open>datetime\<close> is its instant in microseconds since the epoch, aware of its time zone or
  naive (then the instant is its wall-clock reading taken as UTC).
\<close>

datatype datetime = Aware int | Naive int

text \<open>
  Comparing an aware with a naive \<open>datetime\<close> raises \<open>TypeError\<close>.
\<close>

fun datetime_ge :: "datetime \<Rightarrow> datetime \<Rightarrow> exn + bool" where
  "datetime_ge (Aware a) (Aware b) = Inr (b \<le> a)"
| "datetime_ge (Naive a) (Naive b) = Inr (b \<le> a)"
| "datetime_ge _ _ = Inl (Exn ''can't compare offset-naive and offset-aware datetimes'')"

text \<open>
  The library functions whose results the program only passes on or compares are
  parameters of the model: \<open>hashlib.sha1(b).hexdigest()\<close>, the bytes a \<open>GzipFile\<close>
  writes for a payload, \<open>mimetypes.guess_type(path)[0]\<close>,
  \<open>email.utils.parsedate_to_datetime\<close> and \<open>format_datetime(d, usegmt=True)\<close>,
  \<open>int(s)\<close> on a header value, the validation of a network location inside \<open>urlsplit\<close>,
  and the clock and version strings that \<open>http.server\<close> and the status endpoint print.
\<close>

record library =
  sha1_hexdigest :: "bytes \<Rightarrow> string"
  gzip_write :: "bytes \<Rightarrow> bytes"
  guess_type :: "string \<Rightarrow> string option"
  parsedate_to_datetime :: "string \<Rightarrow> exn + datetime"
  format_datetime :: "datetime \<Rightarrow> string"
  int_of_str :: "string \<Rightarrow> exn + int"
  check_netloc :: "string \<Rightarrow> exn option"
  sys_version :: string
  date_time_string :: string
  utcnow_isoformat :: string

text \<open>
  The file system answers for the path string it is given: \<open>os.path.isdir\<close>,
  \<open>os.path.exists\<close>, the bytes \<open>open(path, 'rb').read()\<close> returns or the exception it
  raises, and \<open>os.stat(path).st_mtime\<close> in microseconds (or the exception).
\<close>

record filesystem =
  isdir :: "string \<Rightarrow> bool"
  path_exists :: "string \<Rightarrow> bool"
  open_read :: "string \<Rightarrow> exn + bytes"
  st_mtime :: "string \<Rightarrow> exn + int"

text \<open>The module constants read from the environment of the process.\<close>

record config =
  PUBLIC_DIR :: string
  BACKEND_HOST :: string

text \<open>
  A request as the handler sees it: \<open>self.command\<close>, \<open>self.path\<close>, the items of
  \<open>self.headers\<close> in the order received, and the bytes \<open>self.rfile\<close> gives until its end.
\<close>

record request =
  command :: string
  path :: string
  headers :: "(string \<times> string) list"
  rfile :: bytes

text \<open>
  \<open>self.headers.get(name)\<close>: the value of the first header whose name equals \<open>name\<close>
  without regard to case. \<open>name in self.headers\<close> holds when that search finds one.
\<close>

fun headers_get :: "(string \<times> string) list \<Rightarrow> string \<Rightarrow> string option" where
  "headers_get [] name = None"
| "headers_get ((k, v) # hs) name =
     (if lower k = lower name then Some v else headers_get hs name)"

text \<open>
  \<open>rfile.read(n)\<close> on the buffered reader of the connection: \<open>n\<close> bytes (fewer at the
  end of the stream), everything for \<open>-1\<close>, \<open>ValueError\<close> below.
\<close>

definition rfile_read :: "bytes \<Rightarrow> int \<Rightarrow> exn + bytes" where
  "rfile_read stream n =
     (if 0 \<le> n then Inr (take (nat n) stream)
      else if n = - 1 then Inr stream
      else Inl (Exn ''read length must be non-negative or -1''))"

section \<open>\<open>http.server.BaseHTTPRequestHandler\<close>\<close>

text \<open>
  The handler keeps the lines of the response head in \<open>_headers_buffer\<close> until
  \<open>end_headers\<close> writes them to \<open>wfile\<close>, followed by the empty line. What the client
  receives is the sequence of writes to \<open>wfile\<close>: head blocks and body bytes.
  \<open>send_response\<close> appends a status line to the buffer, whatever the buffer holds.
  The request is taken to be HTTP/1.x (for an HTTP/0.9 request line the library sends
  no head at all).
\<close>

datatype line = StatusLine nat string | HeaderLine string string

datatype written = Head "line list" | Body bytes

record handler =
  headers_buffer :: "line list"
  wfile :: "written list"

definition fresh :: handler where
  "fresh = \<lparr>headers_buffer = [], wfile = []\<rparr>"

text \<open>The entries of \<open>responses\<close> for the status codes the program sends.\<close>

definition responses :: "nat \<Rightarrow> (string \<times> string) option" where
  "responses code =
     (if code = 200 then Some (''OK'', ''Request fulfilled, document follows'')
      else if code = 304 then Some (''Not Modified'', ''Document has not changed since given time'')
      else if code = 403 then Some (''Forbidden'', ''Request forbidden -- authorization will not help'')
      else if code = 404 then Some (''Not Found'', ''Nothing matches the given URI'')
      else if code = 500 then Some (''Internal Server Error'', ''Server got itself in trouble'')
      else if code = 501
        then Some (''Not Implemented'', ''Server does not support this operation'')
      else if code = 502
        then Some (''Bad Gateway'', ''Invalid responses from another server/proxy'')
      else None)"

definition send_response_only :: "nat \<Rightarrow> string option \<Rightarrow> handler \<Rightarrow> handler" where
  "send_response_only code message h =
     (let msg = (case message of
                   Some m \<Rightarrow> m
                 | None \<Rightarrow> (case responses code of Some (short, long) \<Rightarrow> short | None \<Rightarrow> []))
      in h\<lparr>headers_buffer := headers_buffer h @ [StatusLine code msg]\<rparr>)"

definition send_header :: "string \<Rightarrow> string \<Rightarrow> handler \<Rightarrow> handler" where
  "send_header keyword val h = h\<lparr>headers_buffer := headers_buffer h @ [HeaderLine keyword val]\<rparr>"

definition end_headers :: "handler \<Rightarrow> handler" where
  "end_headers h = h\<lparr>headers_buffer := [], wfile := wfile h @ [Head (headers_buffer h)]\<rparr>"

definition wfile_write :: "bytes \<Rightarrow> handler \<Rightarrow> handler" where
  "wfile_write b h = h\<lparr>wfile := wfile h @ [Body b]\<rparr>"

text \<open>\<open>server_version\<close> of the handler class and \<open>version_string()\<close>.\<close>

definition server_version :: string where
  "server_version = ''MiniNginx/0.1''"

definition version_string :: "library \<Rightarrow> string" where
  "version_string lib = server_version @ '' '' @ sys_version lib"

definition send_response :: "library \<Rightarrow> nat \<Rightarrow> string option \<Rightarrow> handler \<Rightarrow> handler" where
  "send_response lib code message h =
     send_header ''Date'' (date_time_string lib)
       (send_header ''Server'' (version_string lib)
          (send_response_only code message h))"

text \<open>\<open>html.escape(s, quote=False)\<close> and the UTF-8 encoding of code points below 256.\<close>

fun html_escape :: "string \<Rightarrow> string" where
  "html_escape [] = []"
| "html_escape (c # s) =
     (if c = CHR ''&'' then ''&amp;'' @ html_escape s
      else if c = CHR ''<'' then ''&lt;'' @ html_escape s
      else if c = CHR ''>'' then ''&gt;'' @ html_escape s
      else c # html_escape s)"

definition utf8_char :: "char \<Rightarrow> bytes" where
  "utf8_char c =
     (let n = (of_char c :: nat)
      in if n < 128 then [c] else [char_of (192 + n div 64), char_of (128 + n mod 64)])"

definition utf8_encode :: "string \<Rightarrow> bytes" where
  "utf8_encode s = concat (map utf8_char s)"

definition dquote :: "string \<Rightarrow> string" where
  "dquote s = [CHR 0x22] @ s @ [CHR 0x22]"

text \<open>\<open>DEFAULT_ERROR_MESSAGE\<close> filled in with the code, the message and the explanation.\<close>

definition error_content :: "nat \<Rightarrow> string \<Rightarrow> string \<Rightarrow> string" where
  "error_content code message explain =
     ''<!DOCTYPE HTML>\<newline><html lang='' @ dquote ''en'' @ ''>\<newline>    <head>\<newline>'' @
     ''        <meta charset='' @ dquote ''utf-8'' @ ''>\<newline>'' @
     ''        <title>Error response</title>\<newline>'' @
     ''    </head>\<newline>    <body>\<newline>        <h1>Error response</h1>\<newline>'' @
     ''        <p>Error code: '' @ str_nat code @ ''</p>\<newline>'' @
     ''        <p>Message: '' @ html_escape message @ ''.</p>\<newline>'' @
     ''        <p>Error code explanation: '' @ str_nat code @ '' - '' @ html_escape explain @
     ''.</p>\<newline>    </body>\<newline></html>\<newline>''"

text \<open>
  \<open>send_error(code, message)\<close>: the status line carries \<open>message\<close> as its reason phrase,
  the body is the error page (none for 204, 205, 304 and codes below 200), written
  unless the request is a HEAD.
\<close>

definition send_error :: "library \<Rightarrow> request \<Rightarrow> nat \<Rightarrow> string \<Rightarrow> handler \<Rightarrow> handler" where
  "send_error lib req code message h =
     (let explain = (case responses code of Some (short, long) \<Rightarrow> long | None \<Rightarrow> ''???'');
          h1 = send_header ''Connection'' ''close'' (send_response lib code (Some message) h);
          body = (if 200 \<le> code \<and> code \<noteq> 204 \<and> code \<noteq> 205 \<and> code \<noteq> 304
                  then Some (utf8_encode (error_content code message explain)) else None);
          h2 = (case body of
                  Some b \<Rightarrow>
                    send_header ''Content-Length'' (str_nat (length b))
                      (send_header ''Content-Type'' ''text/html;charset=utf-8'' h1)
                | None \<Rightarrow> h1);
          h3 = end_headers h2
      in case body of
           Some b \<Rightarrow> (if command req \<noteq> ''HEAD'' \<and> b \<noteq> [] then wfile_write b h3 else h3)
         | None \<Rightarrow> h3)"

text \<open>
  The response as the client reads it off the connection: the status and the reason
  phrase of the first line written, the header lines of the first head block, and as
  body every byte written after that block (the server speaks HTTP/1.0 and closes the
  connection).
\<close>

fun render_line :: "line \<Rightarrow> bytes" where
  "render_line (StatusLine code msg) =
     ''HTTP/1.0 '' @ str_nat code @ '' '' @ msg @ [CHR 0x0D, CHR 0x0A]"
| "render_line (HeaderLine k v) = k @ '': '' @ v @ [CHR 0x0D, CHR 0x0A]"

fun render :: "written \<Rightarrow> bytes" where
  "render (Head ls) = concat (map render_line ls) @ [CHR 0x0D, CHR 0x0A]"
| "render (Body b) = b"

fun wire_status :: "written list \<Rightarrow> nat option" where
  "wire_status (Head (StatusLine code msg # ls) # out) = Some code"
| "wire_status out = None"

fun wire_reason :: "written list \<Rightarrow> string option" where
  "wire_reason (Head (StatusLine code msg # ls) # out) = Some msg"
| "wire_reason out = None"

fun header_fields :: "line list \<Rightarrow> (string \<times> string) list" where
  "header_fields [] = []"
| "header_fields (HeaderLine k v # ls) = (k, v) # header_fields ls"
| "header_fields (StatusLine code msg # ls) = header_fields ls"

fun wire_headers :: "written list \<Rightarrow> (string \<times> string) list" where
  "wire_headers (Head ls # out) = header_fields ls"
| "wire_headers out = []"

fun wire_body :: "written list \<Rightarrow> bytes" where
  "wire_body (Head ls # out) = concat (map render out)"
| "wire_body out = concat (map render out)"

text \<open>The status lines of the first head block, in the order they were written.\<close>

fun status_lines :: "line list \<Rightarrow> nat list" where
  "status_lines [] = []"
| "status_lines (StatusLine code msg # ls) = code # status_lines ls"
| "status_lines (HeaderLine k v # ls) = status_lines ls"

fun wire_status_lines :: "written list \<Rightarrow> nat list" where
  "wire_status_lines (Head ls # out) = status_lines ls"
| "wire_status_lines out = []"

section \<open>The backend connection\<close>

text \<open>
  What the handler passes to \<open>conn.request\<close>, and what \<open>conn.getresponse()\<close> returns:
  status, reason, the header items and the results of the successive \<open>resp.read(8192)\<close>
  calls (after the last of them the response reads as empty). A Python \<open>dict\<close> is the
  list of its items in insertion order; storing under a key it holds replaces the value
  in place.
\<close>

record outbound =
  ob_method :: string
  ob_url :: string
  ob_body :: "bytes option"
  ob_headers :: "(string \<times> string) list"

record upstream =
  status :: nat
  reason :: string
  getheaders :: "(string \<times> string) list"
  reads :: "(exn + bytes) list"

fun dict_set :: "(string \<times> string) list \<Rightarrow> string \<Rightarrow> string \<Rightarrow> (string \<times> string) list" where
  "dict_set [] k v = [(k, v)]"
| "dict_set ((k', v') # d) k v =
     (if k' = k then (k, v) # d else (k', v') # dict_set d k v)"

definition dict_of_items :: "(string \<times> string) list \<Rightarrow> (string \<times> string) list" where
  "dict_of_items items = foldl (\<lambda>d (k, v). dict_set d k v) [] items"

section \<open>\<open>mini-nginx.py\<close>\<close>

definition is_compressible :: "string \<Rightarrow> bool" where
  "is_compressible mime =
     (startswith mime ''text/''
      \<or> List.member [''application/javascript'', ''application/json''] mime
      \<or> endswith mime ''+xml'')"

definition generate_etag_bytes :: "library \<Rightarrow> bytes \<Rightarrow> string" where
  "generate_etag_bytes lib data_bytes = sha1_hexdigest lib data_bytes"

definition read_file_bytes :: "filesystem \<Rightarrow> string \<Rightarrow> exn + bytes" where
  "read_file_bytes fs p = open_read fs p"

subsection \<open>\<open>_handle_status\<close>\<close>

definition handle_status :: "library \<Rightarrow> handler \<Rightarrow> handler" where
  "handle_status lib h =
     (let body = ''{'' @ dquote ''status'' @ '':'' @ dquote ''ok'' @ '','' @ dquote ''time'' @ '':''
                 @ dquote (utcnow_isoformat lib) @ ''}'';
          h1 = send_response lib 200 None h;
          h2 = send_header ''Content-Type'' ''application/json'' h1;
          h3 = send_header ''Content-Length'' (str_nat (length body)) h2;
          h4 = end_headers h3
      in wfile_write body h4)"

subsection \<open>\<open>_handle_proxy\<close>\<close>

text \<open>The arguments of \<open>conn.request\<close>; \<open>int\<close> and \<open>rfile.read\<close> may raise.\<close>

definition proxy_request :: "config \<Rightarrow> library \<Rightarrow> request \<Rightarrow> exn + outbound" where
  "proxy_request cfg lib req =
     (let hdrs0 = dict_of_items (filter (\<lambda>(k, v). lower k \<noteq> ''host'') (headers req));
          hdrs = dict_set hdrs0 ''Host'' (BACKEND_HOST cfg);
          body =
            (case headers_get (headers req) ''content-length'' of
               None \<Rightarrow> Inr None
             | Some v \<Rightarrow>
                 (case int_of_str lib v of
                    Inl e \<Rightarrow> Inl e
                  | Inr len \<Rightarrow>
                      (case rfile_read (rfile req) len of
                         Inl e \<Rightarrow> Inl e
                       | Inr b \<Rightarrow> Inr (Some b))))
      in case body of
           Inl e \<Rightarrow> Inl e
         | Inr b \<Rightarrow>
             Inr \<lparr>ob_method = command req, ob_url = path req, ob_body = b, ob_headers = hdrs\<rparr>)"

text \<open>The loop over the response headers.\<close>

fun copy_headers :: "(string \<times> string) list \<Rightarrow> handler \<Rightarrow> handler" where
  "copy_headers [] h = h"
| "copy_headers ((key, val) # rest) h =
     (if lower key = ''transfer-encoding'' then copy_headers rest h
      else if lower key = ''connection'' then copy_headers rest h
      else copy_headers rest (send_header key val h))"

text \<open>
  The loop that streams the body: it ends at the first empty chunk, an exception of a
  read leaves it with what has been written so far.
\<close>

fun stream_response :: "(exn + bytes) list \<Rightarrow> handler \<Rightarrow> (exn \<times> handler) + handler" where
  "stream_response [] h = Inr h"
| "stream_response (Inl e # rest) h = Inl (e, h)"
| "stream_response (Inr chunk # rest) h =
     (if chunk = [] then Inr h else stream_response rest (wfile_write chunk h))"

text \<open>The body of the \<open>try\<close>: the exception raised, with the handler as it was then.\<close>

definition proxy_try ::
  "config \<Rightarrow> library \<Rightarrow> (outbound \<Rightarrow> exn + upstream) \<Rightarrow> request \<Rightarrow> handler
     \<Rightarrow> (exn \<times> handler) + handler" where
  "proxy_try cfg lib backend req h =
     (case proxy_request cfg lib req of
        Inl e \<Rightarrow> Inl (e, h)
      | Inr ob \<Rightarrow>
          (case backend ob of
             Inl e \<Rightarrow> Inl (e, h)
           | Inr resp \<Rightarrow>
               (let h1 = send_response lib (status resp) (Some (reason resp)) h;
                    h2 = copy_headers (getheaders resp) h1;
                    h3 = send_header ''Vary'' ''Accept-Encoding'' h2;
                    h4 = end_headers h3
                in stream_response (reads resp) h4)))"

definition handle_proxy ::
  "config \<Rightarrow> library \<Rightarrow> (outbound \<Rightarrow> exn + upstream) \<Rightarrow> request \<Rightarrow> handler \<Rightarrow> handler" where
  "handle_proxy cfg lib backend req h =
     (case proxy_try cfg lib backend req h of
        Inr h' \<Rightarrow> h'
      | Inl (e, h') \<Rightarrow> send_error lib req 502 (''Proxy error: '' @ exn_text e) h')"

subsection \<open>\<open>_serve_static\<close>\<close>

text \<open>
  The MIME type: \<open>mimetypes.guess_type(full_path)[0] or 'application/octet-stream'\<close>.
\<close>

definition mime_of :: "library \<Rightarrow> string \<Rightarrow> string" where
  "mime_of lib full_path =
     (case guess_type lib full_path of
        None \<Rightarrow> ''application/octet-stream''
      | Some m \<Rightarrow> if m = [] then ''application/octet-stream'' else m)"

definition cache_control_of :: "string \<Rightarrow> string" where
  "cache_control_of full_path =
     (if endswith full_path ''.html'' then ''no-cache''
      else if list_ex (\<lambda>ext. endswith full_path ext)
                [''.css'', ''.js'', ''.png'', ''.jpg'', ''.jpeg'', ''.svg'', ''.ico'']
        then ''public, max-age=2592000''
      else ''public, max-age=3600'')"

definition content_type_of :: "string \<Rightarrow> string" where
  "content_type_of mime =
     mime @ (if startswith mime ''text/'' \<or> mime = ''application/json''
             then ''; charset=utf-8'' else [])"

text \<open>
  The \<open>If-Modified-Since\<close> block: whether it returns with the second response line.
  Every exception inside the \<open>try\<close> is swallowed.
\<close>

definition ims_not_modified :: "library \<Rightarrow> string \<Rightarrow> datetime \<Rightarrow> bool" where
  "ims_not_modified lib ims last_modified =
     (case parsedate_to_datetime lib ims of
        Inl e \<Rightarrow> False
      | Inr ims_dt \<Rightarrow>
          (let ims_dt1 = (case ims_dt of Naive t \<Rightarrow> Aware t | Aware t \<Rightarrow> Aware t)
           in case datetime_ge ims_dt1 last_modified of
                Inl e \<Rightarrow> False
              | Inr b \<Rightarrow> b))"

text \<open>
  \<open>_serve_static\<close>. Reading the file and \<open>os.stat\<close> may raise, before anything is
  sent. The head of the 200 response is put into the buffer first; the conditional
  branches then call \<open>send_response(NOT_MODIFIED)\<close> on that buffer and end the headers.
\<close>

definition serve_static ::
  "library \<Rightarrow> filesystem \<Rightarrow> request \<Rightarrow> string \<Rightarrow> bool \<Rightarrow> handler \<Rightarrow> exn + handler" where
  "serve_static lib fs req full_path head_only h =
     (case read_file_bytes fs full_path of
        Inl e \<Rightarrow> Inl e
      | Inr data \<Rightarrow>
     (case st_mtime fs full_path of
        Inl e \<Rightarrow> Inl e
      | Inr mtime \<Rightarrow>
     (let mime = mime_of lib full_path;
          cache_control = cache_control_of full_path;
          etag = generate_etag_bytes lib data;
          last_modified = Aware mtime;
          h1 = send_response lib 200 None h;
          h2 = send_header ''Content-Type'' (content_type_of mime) h1;
          h3 = send_header ''Cache-Control'' cache_control h2;
          h4 = send_header ''ETag'' etag h3;
          h5 = send_header ''Last-Modified'' (format_datetime lib last_modified) h4;
          h6 = send_header ''Vary'' ''Accept-Encoding'' h5;
          inm = headers_get (headers req) ''If-None-Match'';
          ims = headers_get (headers req) ''If-Modified-Since''
      in if inm = Some etag then Inr (end_headers (send_response lib 304 None h6))
         else if (case ims of
                    None \<Rightarrow> False
                  | Some v \<Rightarrow> v \<noteq> [] \<and> ims_not_modified lib v last_modified)
           then Inr (end_headers (send_response lib 304 None h6))
         else
           (let accept_enc = (case headers_get (headers req) ''Accept-Encoding'' of
                                None \<Rightarrow> [] | Some v \<Rightarrow> v);
                should_gzip = (contains accept_enc ''gzip'' \<and> is_compressible mime);
                body_bytes = (if should_gzip then gzip_write lib data else data);
                h7 = (if should_gzip then send_header ''Content-Encoding'' ''gzip'' h6 else h6);
                h8 = send_header ''Content-Length'' (str_nat (length body_bytes)) h7;
                h9 = end_headers h8
            in Inr (if \<not> head_only then wfile_write body_bytes h9 else h9)))))"

subsection \<open>\<open>do_GET\<close> and \<open>do_HEAD\<close>\<close>

text \<open>
  The second half of the static branch of \<open>do_GET\<close>: from the normalized relative path
  to the file that is served, through the directory index and the fallback to
  \<open>index.html\<close> of the document root.
\<close>

definition serve_normalized ::
  "config \<Rightarrow> library \<Rightarrow> filesystem \<Rightarrow> request \<Rightarrow> string \<Rightarrow> bool \<Rightarrow> handler \<Rightarrow> exn + handler" where
  "serve_normalized cfg lib fs req normalized head_only h =
     (let full_path0 = path_join (PUBLIC_DIR cfg) normalized;
          full_path = (if isdir fs full_path0
                       then path_join full_path0 ''index.html'' else full_path0)
      in if \<not> path_exists fs full_path then
           (let fallback = path_join (PUBLIC_DIR cfg) ''index.html''
            in if path_exists fs fallback
               then serve_static lib fs req fallback head_only h
               else Inr (send_error lib req 404 ''Not Found'' h))
         else serve_static lib fs req full_path head_only h)"

text \<open>
  The first half of the static branch of \<open>do_GET\<close>: from \<open>self.path\<close> to the
  normalized relative path, or the \<open>ValueError\<close> of \<open>urlparse\<close>.
\<close>

definition normalized_path :: "library \<Rightarrow> string \<Rightarrow> exn + string" where
  "normalized_path lib p =
     (case urlparse_path (check_netloc lib) p of
        Inl e \<Rightarrow> Inl e
      | Inr parsed_path \<Rightarrow>
          (let path0 = unquote (lstrip parsed_path ''/'');
               path1 = (if path0 = [] then ''index.html'' else path0)
           in Inr (normpath path1)))"

text \<open>
  The body of the \<open>try\<close> of \<open>do_GET\<close>. An exception can come from \<open>urlparse\<close> and from
  \<open>_serve_static\<close>, in both cases before the handler has buffered or written anything.
\<close>

definition do_GET_try ::
  "config \<Rightarrow> library \<Rightarrow> filesystem \<Rightarrow> (outbound \<Rightarrow> exn + upstream) \<Rightarrow> request \<Rightarrow> bool
     \<Rightarrow> handler \<Rightarrow> exn + handler" where
  "do_GET_try cfg lib fs backend req head_only h =
     (if path req = ''/_status'' then Inr (handle_status lib h)
      else if startswith (path req) ''/api'' then Inr (handle_proxy cfg lib backend req h)
      else
        (case normalized_path lib (path req) of
           Inl e \<Rightarrow> Inl e
         | Inr normalized \<Rightarrow>
             if startswith normalized ''..''
             then Inr (send_error lib req 403 ''Forbidden'' h)
             else serve_normalized cfg lib fs req normalized head_only h))"

text \<open>
  \<open>do_GET\<close>: the handler after the request and the exception that leaves \<open>do_GET\<close>, if
  any (the \<open>except\<close> clause sends the 500 response and raises again).
\<close>

definition do_GET ::
  "config \<Rightarrow> library \<Rightarrow> filesystem \<Rightarrow> (outbound \<Rightarrow> exn + upstream) \<Rightarrow> request \<Rightarrow> bool
     \<Rightarrow> handler \<Rightarrow> handler \<times> exn option" where
  "do_GET cfg lib fs backend req head_only h =
     (case do_GET_try cfg lib fs backend req head_only h of
        Inr h' \<Rightarrow> (h', None)
      | Inl e \<Rightarrow> (send_error lib req 500 (''Server error: '' @ exn_text e) h, Some e))"

definition do_HEAD ::
  "config \<Rightarrow> library \<Rightarrow> filesystem \<Rightarrow> (outbound \<Rightarrow> exn + upstream) \<Rightarrow> request
     \<Rightarrow> handler \<Rightarrow> handler \<times> exn option" where
  "do_HEAD cfg lib fs backend req h = do_GET cfg lib fs backend req True h"

text \<open>
  \<open>handle_one_request\<close> of the library calls the method \<open>do_\<close> followed by the command.
  The handler class defines \<open>do_GET\<close> and \<open>do_HEAD\<close> only: for every other command the
  library answers 501 itself and no code of the program runs.
\<close>

definition handle_one_request ::
  "config \<Rightarrow> library \<Rightarrow> filesystem \<Rightarrow> (outbound \<Rightarrow> exn + upstream) \<Rightarrow> request
     \<Rightarrow> handler \<Rightarrow> handler \<times> exn option" where
  "handle_one_request cfg lib fs backend req h =
     (if command req = ''GET'' then do_GET cfg lib fs backend req False h
      else if command req = ''HEAD'' then do_HEAD cfg lib fs backend req h
      else (send_error lib req 501
              (''Unsupported method ('' @ py_repr (command req) @ '')'') h, None))"

text \<open>What the client receives for a request on a fresh connection.\<close>

definition response ::
  "config \<Rightarrow> library \<Rightarrow> filesystem \<Rightarrow> (outbound \<Rightarrow> exn + upstream) \<Rightarrow> request
     \<Rightarrow> written list" where
  "response cfg lib fs backend req = wfile (fst (handle_one_request cfg lib fs backend req fresh))"

text \<open>The values of the header lines of a name in the response, in order.\<close>

definition wire_header :: "written list \<Rightarrow> string \<Rightarrow> string list" where
  "wire_header out name =
     map snd (filter (\<lambda>(k, v). lower k = lower name) (wire_headers out))"

text \<open>
  The lines that \<open>_serve_static\<close> buffers before it looks at the conditional headers:
  the status line of the 200 response with the two standard headers, and the five
  headers of the resource.
\<close>

definition static_head :: "library \<Rightarrow> string \<Rightarrow> bytes \<Rightarrow> int \<Rightarrow> line list" where
  "static_head lib full_path data mtime =
     [StatusLine 200 ''OK'',
      HeaderLine ''Server'' (version_string lib),
      HeaderLine ''Date'' (date_time_string lib),
      HeaderLine ''Content-Type'' (content_type_of (mime_of lib full_path)),
      HeaderLine ''Cache-Control'' (cache_control_of full_path),
      HeaderLine ''ETag'' (sha1_hexdigest lib data),
      HeaderLine ''Last-Modified'' (format_datetime lib (Aware mtime)),
      HeaderLine ''Vary'' ''Accept-Encoding'']"

text \<open>The lines that \<open>send_response(HTTPStatus.NOT_MODIFIED)\<close> appends.\<close>

definition not_modified_lines :: "library \<Rightarrow> line list" where
  "not_modified_lines lib =
     [StatusLine 304 ''Not Modified'',
      HeaderLine ''Server'' (version_string lib),
      HeaderLine ''Date'' (date_time_string lib)]"

text \<open>Whether \<open>_serve_static\<close> takes one of its two conditional branches.\<close>

definition conditional_hit :: "library \<Rightarrow> request \<Rightarrow> bytes \<Rightarrow> int \<Rightarrow> bool" where
  "conditional_hit lib req data mtime =
     (headers_get (headers req) ''If-None-Match'' = Some (generate_etag_bytes lib data)
      \<or> (case headers_get (headers req) ''If-Modified-Since'' of
            None \<Rightarrow> False
          | Some v \<Rightarrow> v \<noteq> [] \<and> ims_not_modified lib v (Aware mtime)))"

text \<open>Whether \<open>_serve_static\<close> compresses the body.\<close>

definition should_gzip :: "library \<Rightarrow> request \<Rightarrow> string \<Rightarrow> bool" where
  "should_gzip lib req full_path =
     (contains (case headers_get (headers req) ''Accept-Encoding'' of None \<Rightarrow> [] | Some v \<Rightarrow> v)
        ''gzip''
      \<and> is_compressible (mime_of lib full_path))"

text \<open>The instant of a \<open>datetime\<close>, and a request with the headers of one name removed.\<close>

definition instant :: "datetime \<Rightarrow> int" where
  "instant d = (case d of Aware t \<Rightarrow> t | Naive t \<Rightarrow> t)"

definition without_header :: "string \<Rightarrow> request \<Rightarrow> request" where
  "without_header name req =
     req\<lparr>headers := filter (\<lambda>(k, v). lower k \<noteq> lower name) (headers req)\<rparr>"

section \<open>A concrete environment\<close>

text \<open>
  An environment on which the definitions run: a document root \<open>/srv/public\<close> with an
  index page, a style sheet, a script, a JSON file, a sub-directory \<open>docs\<close> and a file the server
  may not read, next to \<open>/etc/passwd\<close> outside the root. Its library functions are
  small stand-ins: the digest is the payload behind a prefix, the compressed form is the
  payload behind the two magic bytes of gzip, three dates parse and two are printed.
\<close>

definition squote :: "string \<Rightarrow> string" where
  "squote s = [CHR 0x27] @ s @ [CHR 0x27]"

definition ex_guess_type :: "string \<Rightarrow> string option" where
  "ex_guess_type p =
     (if endswith p ''.html'' then Some ''text/html''
      else if endswith p ''.css'' then Some ''text/css''
      else if endswith p ''.js'' then Some ''application/javascript''
      else if endswith p ''.json'' then Some ''application/json''
      else if endswith p ''.svg'' then Some ''image/svg+xml''
      else if endswith p ''.txt'' then Some ''text/plain''
      else None)"

definition ex_parsedate :: "string \<Rightarrow> exn + datetime" where
  "ex_parsedate s =
     (if s = ''Thu, 01 Jan 1970 00:00:10 GMT'' then Inr (Aware 10000000)
      else if s = ''Thu, 01 Jan 1970 00:00:20 GMT'' then Inr (Aware 20000000)
      else if s = ''Thu, 01 Jan 1970 00:00:30 -0000'' then Inr (Naive 30000000)
      else Inl (Exn (''Invalid date value or format '' @ dquote s)))"

definition ex_format_datetime :: "datetime \<Rightarrow> string" where
  "ex_format_datetime d =
     (if d = Aware 10000000 then ''Thu, 01 Jan 1970 00:00:10 GMT''
      else if d = Aware 20000000 then ''Thu, 01 Jan 1970 00:00:20 GMT''
      else ''Thu, 01 Jan 1970 00:00:00 GMT'')"

definition ex_int_of_str :: "string \<Rightarrow> exn + int" where
  "ex_int_of_str s =
     (if s \<noteq> [] \<and> list_all (\<lambda>c. List.member ''0123456789'' c) s
      then Inr (foldl (\<lambda>n c. 10 * n + (int (of_char c) - 48)) 0 s)
      else Inl (Exn (''invalid literal for int() with base 10: '' @ squote s)))"

definition ex_lib :: library where
  "ex_lib =
     \<lparr>sha1_hexdigest = (\<lambda>b. ''sha1-'' @ b),
      gzip_write = (\<lambda>b. [CHR 0x1F, CHR 0x8B] @ b),
      guess_type = ex_guess_type,
      parsedate_to_datetime = ex_parsedate,
      format_datetime = ex_format_datetime,
      int_of_str = ex_int_of_str,
      check_netloc = (\<lambda>n. None),
      sys_version = ''Python/3.11.10'',
      date_time_string = ''Tue, 03 Nov 2026 23:06:44 GMT'',
      utcnow_isoformat = ''2026-11-03T23:06:44.000000+00:00''\<rparr>"

definition ex_gunzip :: "bytes \<Rightarrow> bytes" where
  "ex_gunzip b = drop 2 b"

definition ex_cfg :: config where
  "ex_cfg = \<lparr>PUBLIC_DIR = ''/srv/public'', BACKEND_HOST = ''backend''\<rparr>"

definition ex_dirs :: "string list" where
  "ex_dirs = [''/'', ''/etc'', ''/srv'', ''/srv/public'', ''/srv/public/docs'']"

definition ex_files :: "(string \<times> (exn + bytes)) list" where
  "ex_files =
     [(''/srv/public/index.html'', Inr ''<h1>home</h1>''),
      (''/srv/public/style.css'', Inr ''body { margin: 0 }''),
      (''/srv/public/app.js'', Inr ''console.log(1)''),
      (''/srv/public/data.json'', Inr ''{}''),
      (''/srv/public/_status'', Inr ''a file named _status''),
      (''/srv/public/secret.txt'',
         Inl (Exn (''[Errno 13] Permission denied: '' @ squote ''/srv/public/secret.txt''))),
      (''/etc/passwd'', Inr ''root:x:0:0:root:/root:/bin/sh'')]"

definition ex_fs :: filesystem where
  "ex_fs =
     \<lparr>isdir = (\<lambda>p. List.member ex_dirs p),
      path_exists = (\<lambda>p. List.member ex_dirs p \<or> List.member (map fst ex_files) p),
      open_read = (\<lambda>p. case map_of ex_files p of
                          Some r \<Rightarrow> r
                        | None \<Rightarrow>
                            if List.member ex_dirs p
                            then Inl (Exn (''[Errno 21] Is a directory: '' @ squote p))
                            else Inl (Exn (''[Errno 2] No such file or directory: '' @ squote p))),
      st_mtime = (\<lambda>p. if List.member ex_dirs p \<or> List.member (map fst ex_files) p
                       then Inr 20000000
                       else Inl (Exn (''[Errno 2] No such file or directory: '' @ squote p)))\<rparr>"

text \<open>The same tree without the index page of the root.\<close>

definition ex_fs_bare :: filesystem where
  "ex_fs_bare =
     ex_fs\<lparr>path_exists := (\<lambda>p. p \<noteq> ''/srv/public/index.html'' \<and> path_exists ex_fs p)\<rparr>"

text \<open>A backend that answers, and one that refuses the connection.\<close>

definition ex_backend :: "outbound \<Rightarrow> exn + upstream" where
  "ex_backend ob =
     Inr \<lparr>status = 201, reason = ''Created'',
          getheaders = [(''Content-Type'', ''application/json; charset=utf-8''),
                        (''Transfer-Encoding'', ''chunked''),
                        (''connection'', ''keep-alive''),
                        (''ETag'', ''abc'')],
          reads = [Inr ''{'', Inr ''}'']\<rparr>"

definition ex_backend_down :: "outbound \<Rightarrow> exn + upstream" where
  "ex_backend_down ob = Inl (Exn ''[Errno 111] Connection refused'')"

definition ex_get :: "string \<Rightarrow> (string \<times> string) list \<Rightarrow> request" where
  "ex_get p hs = \<lparr>command = ''GET'', path = p, headers = hs, rfile = []\<rparr>"

text \<open>
  Two proxied requests: one that repeats a header name, one with a body of two bytes
  followed by more bytes on the connection.
\<close>

definition ex_dup :: request where
  "ex_dup = \<lparr>command = ''GET'', path = ''/api/events'',
             headers = [(''Accept'', ''text/html''), (''Host'', ''edge.example''),
                        (''Accept'', ''application/json'')],
             rfile = []\<rparr>"

definition ex_post :: request where
  "ex_post = \<lparr>command = ''GET'', path = ''/api/events?x=1'',
              headers = [(''Accept'', ''*/*''), (''Content-Length'', ''2''),
                         (''Host'', ''edge.example'')],
              rfile = ''{}tail''\<rparr>"

text \<open>A request with a method other than GET and HEAD for a path under \<open>/api\<close>.\<close>

definition ex_api_post :: request where
  "ex_api_post = \<lparr>command = ''POST'', path = ''/api/events'',
                  headers = [(''Content-Length'', ''2'')], rfile = ''{}''\<rparr>"

text \<open>The tree with an index page that exists and that the server may not read.\<close>

definition ex_fs_locked :: filesystem where
  "ex_fs_locked =
     ex_fs\<lparr>open_read := (\<lambda>p. if p = ''/srv/public/index.html''
                              then Inl (Exn (''[Errno 13] Permission denied: ''
                                             @ squote ''/srv/public/index.html''))
                              else open_read ex_fs p)\<rparr>"

section \<open>The shape of a static response\<close>

lemma lower_names [simp]:
  "lower ''Server'' = ''server''" "lower ''Date'' = ''date''"
  "lower ''Content-Type'' = ''content-type''" "lower ''Cache-Control'' = ''cache-control''"
  "lower ''ETag'' = ''etag''" "lower ''Last-Modified'' = ''last-modified''"
  "lower ''Vary'' = ''vary''" "lower ''Content-Encoding'' = ''content-encoding''"
  "lower ''Content-Length'' = ''content-length''" "lower ''Connection'' = ''connection''"
  by code_simp+

lemmas handler_ops = send_response_def send_response_only_def send_header_def end_headers_def
  wfile_write_def fresh_def responses_def

lemma serve_static_raises:
  "read_file_bytes fs full_path = Inl e \<Longrightarrow>
     serve_static lib fs req full_path head_only h = Inl e"
  "read_file_bytes fs full_path = Inr data \<Longrightarrow> st_mtime fs full_path = Inl e \<Longrightarrow>
     serve_static lib fs req full_path head_only h = Inl e"
  by (simp_all add: serve_static_def)

lemma serve_static_Inr:
  assumes "serve_static lib fs req full_path head_only h = Inr h'"
  obtains data mtime where
    "read_file_bytes fs full_path = Inr data" "st_mtime fs full_path = Inr mtime"
  using assms by (auto simp add: serve_static_def split: sum.splits)

text \<open>
  When a conditional branch is taken, one head block is written: the lines of the 200
  response followed by the lines of the 304 response. No body follows.
\<close>

lemma serve_static_hit:
  assumes "read_file_bytes fs full_path = Inr data" and "st_mtime fs full_path = Inr mtime"
    and "conditional_hit lib req data mtime"
  shows "serve_static lib fs req full_path head_only fresh =
     Inr \<lparr>headers_buffer = [],
          wfile = [Head (static_head lib full_path data mtime @ not_modified_lines lib)]\<rparr>"
  using assms
  by (auto simp add: serve_static_def Let_def handler_ops conditional_hit_def static_head_def
      not_modified_lines_def generate_etag_bytes_def)

text \<open>Otherwise the head ends with the framing headers and the body follows.\<close>

lemma serve_static_full:
  assumes "read_file_bytes fs full_path = Inr data" and "st_mtime fs full_path = Inr mtime"
    and "\<not> conditional_hit lib req data mtime"
  shows "serve_static lib fs req full_path head_only fresh =
     Inr \<lparr>headers_buffer = [],
          wfile =
            Head (static_head lib full_path data mtime
                  @ (if should_gzip lib req full_path
                     then [HeaderLine ''Content-Encoding'' ''gzip'',
                           HeaderLine ''Content-Length'' (str_nat (length (gzip_write lib data)))]
                     else [HeaderLine ''Content-Length'' (str_nat (length data))]))
            # (if head_only then []
               else [Body (if should_gzip lib req full_path then gzip_write lib data else data)])\<rparr>"
  using assms
  by (auto simp add: serve_static_def Let_def handler_ops conditional_hit_def static_head_def
      should_gzip_def generate_etag_bytes_def)

lemma serve_static_wire:
  assumes "read_file_bytes fs full_path = Inr data" and "st_mtime fs full_path = Inr mtime"
  obtains h rest bodies where
    "serve_static lib fs req full_path head_only fresh = Inr h"
    "wfile h = Head (static_head lib full_path data mtime @ rest) # bodies"
    "rest = not_modified_lines lib
     \<or> rest = [HeaderLine ''Content-Encoding'' ''gzip'',
               HeaderLine ''Content-Length'' (str_nat (length (gzip_write lib data)))]
     \<or> rest = [HeaderLine ''Content-Length'' (str_nat (length data))]"
proof (cases "conditional_hit lib req data mtime")
  case True
  from serve_static_hit [OF assms True, of head_only] that show ?thesis by simp
next
  case False
  from serve_static_full [OF assms False, of head_only] that show ?thesis
    by (cases "should_gzip lib req full_path") simp_all
qed

lemma serve_static_cache_headers:
  assumes "read_file_bytes fs full_path = Inr data" and "st_mtime fs full_path = Inr mtime"
    and "serve_static lib fs req full_path head_only fresh = Inr h"
  shows "wire_header (wfile h) ''ETag'' = [sha1_hexdigest lib data]"
    and "wire_header (wfile h) ''Last-Modified'' = [format_datetime lib (Aware mtime)]"
    and "wire_header (wfile h) ''Cache-Control'' = [cache_control_of full_path]"
    and "wire_header (wfile h) ''Vary'' = [''Accept-Encoding'']"
    and "wire_status (wfile h) = Some 200"
proof -
  obtain h0 rest bodies where
    e: "serve_static lib fs req full_path head_only fresh = Inr h0"
    and w: "wfile h0 = Head (static_head lib full_path data mtime @ rest) # bodies"
    and r: "rest = not_modified_lines lib
     \<or> rest = [HeaderLine ''Content-Encoding'' ''gzip'',
               HeaderLine ''Content-Length'' (str_nat (length (gzip_write lib data)))]
     \<or> rest = [HeaderLine ''Content-Length'' (str_nat (length data))]"
    by (rule serve_static_wire [OF assms(1,2)])
  from e assms(3) have hh: "h = h0" by simp
  from r show "wire_header (wfile h) ''ETag'' = [sha1_hexdigest lib data]"
    by (auto simp add: hh w wire_header_def static_head_def not_modified_lines_def)
  from r show "wire_header (wfile h) ''Last-Modified'' = [format_datetime lib (Aware mtime)]"
    by (auto simp add: hh w wire_header_def static_head_def not_modified_lines_def)
  from r show "wire_header (wfile h) ''Cache-Control'' = [cache_control_of full_path]"
    by (auto simp add: hh w wire_header_def static_head_def not_modified_lines_def)
  from r show "wire_header (wfile h) ''Vary'' = [''Accept-Encoding'']"
    by (auto simp add: hh w wire_header_def static_head_def not_modified_lines_def)
  show "wire_status (wfile h) = Some 200"
    by (simp add: hh w static_head_def)
qed

lemma headers_get_filter:
  "lower name \<noteq> lower n \<Longrightarrow>
     headers_get (filter (\<lambda>(k, v). lower k \<noteq> lower n) hs) name = headers_get hs name"
  by (induction hs) auto

lemma headers_get_filter_same:
  "headers_get (filter (\<lambda>(k, v). lower k \<noteq> lower n) hs) n = None"
  by (induction hs) auto

text \<open>The routes of \<open>do_GET\<close>.\<close>

lemma do_GET_try_static:
  assumes "path req \<noteq> ''/_status''" and "\<not> startswith (path req) ''/api''"
    and "normalized_path lib (path req) = Inr normalized"
  shows "do_GET_try cfg lib fs backend req head_only h =
     (if startswith normalized ''..'' then Inr (send_error lib req 403 ''Forbidden'' h)
      else serve_normalized cfg lib fs req normalized head_only h)"
  using assms by (simp add: do_GET_try_def)

lemma serve_normalized_file:
  assumes "\<not> isdir fs (path_join (PUBLIC_DIR cfg) normalized)"
    and "path_exists fs (path_join (PUBLIC_DIR cfg) normalized)"
  shows "serve_normalized cfg lib fs req normalized head_only h =
     serve_static lib fs req (path_join (PUBLIC_DIR cfg) normalized) head_only h"
  using assms by (simp add: serve_normalized_def)

lemma response_of_try:
  assumes "command req = ''GET'' \<or> command req = ''HEAD''"
    and "do_GET_try cfg lib fs backend req (command req = ''HEAD'') fresh = Inr h"
  shows "response cfg lib fs backend req = wfile h"
  using assms by (auto simp add: response_def handle_one_request_def do_HEAD_def do_GET_def)

section \<open>Content-Type of a static response\<close>

text \<open>
  Claim C10. Every response of \<open>_serve_static\<close> carries one \<open>Content-Type\<close> header. When
  the MIME type guessed from the file name starts with \<open>text/\<close> or is \<open>application/json\<close>,
  the header is the type followed by \<open>; charset=utf-8\<close>; for every other type
  (\<open>application/javascript\<close> and the types ending in \<open>+xml\<close> among them) it is the bare
  type; when no type can be guessed it is \<open>application/octet-stream\<close>.
\<close>

theorem content_type_header:
  assumes "serve_static lib fs req full_path head_only fresh = Inr h'"
  shows "wire_header (wfile h') ''Content-Type'' =
     [case guess_type lib full_path of
        None \<Rightarrow> ''application/octet-stream''
      | Some m \<Rightarrow>
          if m = [] then ''application/octet-stream''
          else if startswith m ''text/'' \<or> m = ''application/json'' then m @ ''; charset=utf-8''
          else m]"
proof -
  from assms obtain data mtime where
    rd: "read_file_bytes fs full_path = Inr data" and mt: "st_mtime fs full_path = Inr mtime"
    by (rule serve_static_Inr)
  have ct: "content_type_of (mime_of lib full_path) =
     (case guess_type lib full_path of
        None \<Rightarrow> ''application/octet-stream''
      | Some m \<Rightarrow>
          if m = [] then ''application/octet-stream''
          else if startswith m ''text/'' \<or> m = ''application/json'' then m @ ''; charset=utf-8''
          else m)"
    by (simp add: content_type_of_def mime_of_def startswith_def split: option.splits)
  show ?thesis
  proof (cases "conditional_hit lib req data mtime")
    case True
    from serve_static_hit [OF rd mt True, of head_only] assms
    have "wfile h' = [Head (static_head lib full_path data mtime @ not_modified_lines lib)]"
      by auto
    then show ?thesis
      by (simp add: wire_header_def static_head_def not_modified_lines_def ct)
  next
    case False
    from serve_static_full [OF rd mt False, of head_only] assms
    have "wire_headers (wfile h') =
       header_fields (static_head lib full_path data mtime
         @ (if should_gzip lib req full_path
            then [HeaderLine ''Content-Encoding'' ''gzip'',
                  HeaderLine ''Content-Length'' (str_nat (length (gzip_write lib data)))]
            else [HeaderLine ''Content-Length'' (str_nat (length data))]))"
      by auto
    then show ?thesis
      by (simp add: wire_header_def static_head_def ct)
  qed
qed

theorem content_type_header_witness:
  "\<exists>h1 h2.
     serve_static ex_lib ex_fs (ex_get ''/'' []) ''/srv/public/index.html'' False fresh = Inr h1
     \<and> wire_header (wfile h1) ''Content-Type'' = [''text/html; charset=utf-8'']
     \<and> serve_static ex_lib ex_fs (ex_get ''/app.js'' []) ''/srv/public/app.js'' False fresh = Inr h2
     \<and> wire_header (wfile h2) ''Content-Type'' = [''application/javascript'']"
proof -
  have rd1: "read_file_bytes ex_fs ''/srv/public/index.html'' = Inr ''<h1>home</h1>''"
    and mt1: "st_mtime ex_fs ''/srv/public/index.html'' = Inr 20000000"
    and nh1: "\<not> conditional_hit ex_lib (ex_get ''/'' []) ''<h1>home</h1>'' 20000000"
    and g1: "guess_type ex_lib ''/srv/public/index.html'' = Some ''text/html''"
    by code_simp+
  have rd2: "read_file_bytes ex_fs ''/srv/public/app.js'' = Inr ''console.log(1)''"
    and mt2: "st_mtime ex_fs ''/srv/public/app.js'' = Inr 20000000"
    and nh2: "\<not> conditional_hit ex_lib (ex_get ''/app.js'' []) ''console.log(1)'' 20000000"
    and g2: "guess_type ex_lib ''/srv/public/app.js'' = Some ''application/javascript''"
    by code_simp+
  from serve_static_full [OF rd1 mt1 nh1, of False] obtain h1 where
    e1: "serve_static ex_lib ex_fs (ex_get ''/'' []) ''/srv/public/index.html'' False fresh = Inr h1"
    by blast
  from serve_static_full [OF rd2 mt2 nh2, of False] obtain h2 where
    e2: "serve_static ex_lib ex_fs (ex_get ''/app.js'' []) ''/srv/public/app.js'' False fresh = Inr h2"
    by blast
  have "wire_header (wfile h1) ''Content-Type'' = [''text/html; charset=utf-8'']"
    using content_type_header [OF e1] by (simp add: g1 startswith_def)
  moreover have "wire_header (wfile h2) ''Content-Type'' = [''application/javascript'']"
    using content_type_header [OF e2] by (simp add: g2 startswith_def)
  ultimately show ?thesis using e1 e2 by blast
qed

text \<open>The style sheet of the concrete environment.\<close>

lemma ex_style:
  "read_file_bytes ex_fs ''/srv/public/style.css'' = Inr ''body { margin: 0 }''"
  "st_mtime ex_fs ''/srv/public/style.css'' = Inr 20000000"
  "cache_control_of ''/srv/public/style.css'' = ''public, max-age=2592000''"
  "sha1_hexdigest ex_lib ''body { margin: 0 }'' = ''sha1-body { margin: 0 }''"
  "format_datetime ex_lib (Aware 20000000) = ''Thu, 01 Jan 1970 00:00:20 GMT''"
  by code_simp+

section \<open>ETag and Last-Modified do not depend on the encoding\<close>

text \<open>
  Claim C6. For a static file and two requests for it, both responses carry the same
  \<open>ETag\<close> and the same \<open>Last-Modified\<close>: the \<open>ETag\<close> is the digest of the bytes of the
  file as read, the \<open>Last-Modified\<close> the formatted modification time, whatever the
  headers of the request are. Two requests that differ only in \<open>Accept-Encoding\<close> are a
  case of this.
\<close>

theorem etag_independent_of_accept_encoding:
  assumes "read_file_bytes fs full_path = Inr data" and "st_mtime fs full_path = Inr mtime"
  shows "\<exists>h1 h2.
      serve_static lib fs r1 full_path head_only fresh = Inr h1
    \<and> serve_static lib fs r2 full_path head_only fresh = Inr h2
    \<and> wire_header (wfile h1) ''ETag'' = [sha1_hexdigest lib data]
    \<and> wire_header (wfile h2) ''ETag'' = [sha1_hexdigest lib data]
    \<and> wire_header (wfile h1) ''Last-Modified'' = [format_datetime lib (Aware mtime)]
    \<and> wire_header (wfile h2) ''Last-Modified'' = [format_datetime lib (Aware mtime)]"
proof -
  obtain h1 rest1 bodies1 where e1: "serve_static lib fs r1 full_path head_only fresh = Inr h1"
    by (rule serve_static_wire [OF assms])
  obtain h2 rest2 bodies2 where e2: "serve_static lib fs r2 full_path head_only fresh = Inr h2"
    by (rule serve_static_wire [OF assms])
  note c1 = serve_static_cache_headers [OF assms e1]
  note c2 = serve_static_cache_headers [OF assms e2]
  from e1 e2 c1(1,2) c2(1,2) show ?thesis by simp
qed

theorem etag_independent_of_accept_encoding_witness:
  "\<exists>h1 h2.
      serve_static ex_lib ex_fs (ex_get ''/style.css'' [(''Accept-Encoding'', ''gzip, br'')])
        ''/srv/public/style.css'' False fresh = Inr h1
    \<and> serve_static ex_lib ex_fs (ex_get ''/style.css'' [(''Accept-Encoding'', ''identity'')])
        ''/srv/public/style.css'' False fresh = Inr h2
    \<and> wire_header (wfile h1) ''ETag'' = [''sha1-body { margin: 0 }'']
    \<and> wire_header (wfile h2) ''ETag'' = [''sha1-body { margin: 0 }'']
    \<and> wire_header (wfile h1) ''Last-Modified'' = [''Thu, 01 Jan 1970 00:00:20 GMT'']
    \<and> wire_header (wfile h2) ''Last-Modified'' = [''Thu, 01 Jan 1970 00:00:20 GMT'']"
  using etag_independent_of_accept_encoding [OF ex_style(1,2), of ex_lib
      "ex_get ''/style.css'' [(''Accept-Encoding'', ''gzip, br'')]" False
      "ex_get ''/style.css'' [(''Accept-Encoding'', ''identity'')]"]
  by (simp add: ex_style)

section \<open>Conditional requests\<close>

text \<open>
  Claim C1. A request whose \<open>If-None-Match\<close> equals the digest of the bytes of the file
  should be answered 304. \<open>_serve_static\<close> has put the status line of the 200 response
  into the buffer by then, so the response on the wire starts with \<open>200 OK\<close>; the line
  \<open>304 Not Modified\<close> follows the headers of the resource inside the same head block. No
  body and no \<open>Content-Length\<close> are sent, and the four cache headers are those of the 200
  response.
\<close>

theorem if_none_match_wire_status:
  assumes "read_file_bytes fs full_path = Inr data" and "st_mtime fs full_path = Inr mtime"
    and "headers_get (headers req) ''If-None-Match'' = Some (sha1_hexdigest lib data)"
  shows "\<exists>h. serve_static lib fs req full_path head_only fresh = Inr h
    \<and> wire_status (wfile h) = Some 200
    \<and> wire_status_lines (wfile h) = [200, 304]
    \<and> wire_body (wfile h) = []
    \<and> wire_header (wfile h) ''Content-Length'' = []
    \<and> wire_header (wfile h) ''Cache-Control'' = [cache_control_of full_path]
    \<and> wire_header (wfile h) ''ETag'' = [sha1_hexdigest lib data]
    \<and> wire_header (wfile h) ''Last-Modified'' = [format_datetime lib (Aware mtime)]
    \<and> wire_header (wfile h) ''Vary'' = [''Accept-Encoding'']"
proof -
  from assms(3) have hit: "conditional_hit lib req data mtime"
    by (simp add: conditional_hit_def generate_etag_bytes_def)
  note e = serve_static_hit [OF assms(1,2) hit, of head_only]
  note c = serve_static_cache_headers [OF assms(1,2) e]
  have "wire_status_lines [Head (static_head lib full_path data mtime @ not_modified_lines lib)]
        = [200, 304]"
    by (simp add: static_head_def not_modified_lines_def)
  moreover have "wire_header [Head (static_head lib full_path data mtime @ not_modified_lines lib)]
        ''Content-Length'' = []"
    by (simp add: wire_header_def static_head_def not_modified_lines_def)
  ultimately show ?thesis using e c by simp
qed

theorem if_none_match_wire_status_witness:
  "\<exists>h. serve_static ex_lib ex_fs
         (ex_get ''/style.css'' [(''If-None-Match'', ''sha1-body { margin: 0 }'')])
         ''/srv/public/style.css'' False fresh = Inr h
    \<and> wire_status (wfile h) = Some 200
    \<and> wire_status_lines (wfile h) = [200, 304]
    \<and> wire_body (wfile h) = []
    \<and> wire_header (wfile h) ''Content-Length'' = []
    \<and> wire_header (wfile h) ''Cache-Control'' = [''public, max-age=2592000'']
    \<and> wire_header (wfile h) ''ETag'' = [''sha1-body { margin: 0 }'']
    \<and> wire_header (wfile h) ''Last-Modified'' = [''Thu, 01 Jan 1970 00:00:20 GMT'']
    \<and> wire_header (wfile h) ''Vary'' = [''Accept-Encoding'']"
proof -
  have inm: "headers_get (headers (ex_get ''/style.css''
                 [(''If-None-Match'', ''sha1-body { margin: 0 }'')])) ''If-None-Match''
             = Some (sha1_hexdigest ex_lib ''body { margin: 0 }'')"
    by code_simp
  from if_none_match_wire_status [OF ex_style(1,2) inm, of False]
  show ?thesis by (simp add: ex_style)
qed

text \<open>
  Claim C4. With no matching \<open>If-None-Match\<close> and a non-empty \<open>If-Modified-Since\<close>: when
  the header parses, the conditional branch (the second status line, no body) is taken
  exactly when the modification time is not after the date; when it does not parse, the
  response is the one to the same request without the header, no error. In every case
  the status on the wire is 200.
\<close>

theorem if_modified_since_decision:
  assumes "read_file_bytes fs full_path = Inr data" and "st_mtime fs full_path = Inr mtime"
    and "headers_get (headers req) ''If-None-Match'' \<noteq> Some (sha1_hexdigest lib data)"
    and "headers_get (headers req) ''If-Modified-Since'' = Some v" and "v \<noteq> []"
  shows "\<exists>h. serve_static lib fs req full_path head_only fresh = Inr h
    \<and> wire_status (wfile h) = Some 200
    \<and> (case parsedate_to_datetime lib v of
          Inr d \<Rightarrow>
            (wire_status_lines (wfile h) = [200, 304] \<longleftrightarrow> \<not> instant d < mtime)
            \<and> (wire_status_lines (wfile h) = [200, 304] \<or> wire_status_lines (wfile h) = [200])
        | Inl e \<Rightarrow>
            wire_status_lines (wfile h) = [200]
            \<and> wire_body (wfile h) =
                  (if head_only then []
                   else if should_gzip lib req full_path then gzip_write lib data else data)
            \<and> serve_static lib fs (without_header ''If-Modified-Since'' req) full_path head_only
                 fresh = Inr h)"
proof (cases "parsedate_to_datetime lib v")
  case (Inl e)
  with assms(3,4) have nh: "\<not> conditional_hit lib req data mtime"
    by (simp add: conditional_hit_def generate_etag_bytes_def ims_not_modified_def)
  have l: "lower ''If-None-Match'' \<noteq> lower ''If-Modified-Since''"
    "lower ''Accept-Encoding'' \<noteq> lower ''If-Modified-Since''"
    by code_simp+
  from assms(3) have nh': "\<not> conditional_hit lib (without_header ''If-Modified-Since'' req) data mtime"
    by (simp add: conditional_hit_def generate_etag_bytes_def without_header_def
        headers_get_filter [OF l(1)] headers_get_filter_same)
  have sg: "should_gzip lib (without_header ''If-Modified-Since'' req) full_path
            = should_gzip lib req full_path"
    by (simp add: should_gzip_def without_header_def headers_get_filter [OF l(2)])
  note e = serve_static_full [OF assms(1,2) nh, of head_only]
  note e' = serve_static_full [OF assms(1,2) nh', of head_only]
  have "wire_status_lines (Head (static_head lib full_path data mtime
                  @ (if should_gzip lib req full_path
                     then [HeaderLine ''Content-Encoding'' ''gzip'',
                           HeaderLine ''Content-Length'' (str_nat (length (gzip_write lib data)))]
                     else [HeaderLine ''Content-Length'' (str_nat (length data))])) # bs) = [200]" for bs
    by (simp add: static_head_def)
  moreover have "wire_body (Head ls # (if head_only then [] else [Body b]))
                 = (if head_only then [] else b)" for ls b
    by simp
  ultimately show ?thesis
    using e e' sg Inl serve_static_cache_headers(5) [OF assms(1,2) e] by simp
next
  case (Inr d)
  have ims: "ims_not_modified lib v (Aware mtime) \<longleftrightarrow> \<not> instant d < mtime"
    using Inr by (cases d) (auto simp add: ims_not_modified_def instant_def)
  show ?thesis
  proof (cases "instant d < mtime")
    case True
    with assms(3,4) ims have nh: "\<not> conditional_hit lib req data mtime"
      by (simp add: conditional_hit_def generate_etag_bytes_def)
    note e = serve_static_full [OF assms(1,2) nh, of head_only]
    have "wire_status_lines (Head (static_head lib full_path data mtime
                  @ (if should_gzip lib req full_path
                     then [HeaderLine ''Content-Encoding'' ''gzip'',
                           HeaderLine ''Content-Length'' (str_nat (length (gzip_write lib data)))]
                     else [HeaderLine ''Content-Length'' (str_nat (length data))])) # bs) = [200]" for bs
      by (simp add: static_head_def)
    with e Inr True serve_static_cache_headers(5) [OF assms(1,2) e] show ?thesis by simp
  next
    case False
    with assms(4,5) ims have hit: "conditional_hit lib req data mtime"
      by (simp add: conditional_hit_def)
    note e = serve_static_hit [OF assms(1,2) hit, of head_only]
    have "wire_status_lines [Head (static_head lib full_path data mtime @ not_modified_lines lib)]
        = [200, 304]"
      by (simp add: static_head_def not_modified_lines_def)
    with e Inr False serve_static_cache_headers(5) [OF assms(1,2) e] show ?thesis by simp
  qed
qed

theorem if_modified_since_decision_witness:
  "(\<exists>h. serve_static ex_lib ex_fs
          (ex_get ''/style.css'' [(''If-Modified-Since'', ''Thu, 01 Jan 1970 00:00:20 GMT'')])
          ''/srv/public/style.css'' False fresh = Inr h
      \<and> wire_status (wfile h) = Some 200
      \<and> wire_status_lines (wfile h) = [200, 304])
   \<and> (\<exists>h. serve_static ex_lib ex_fs
          (ex_get ''/style.css'' [(''If-Modified-Since'', ''Thu, 01 Jan 1970 00:00:10 GMT'')])
          ''/srv/public/style.css'' False fresh = Inr h
      \<and> wire_status (wfile h) = Some 200
      \<and> wire_status_lines (wfile h) = [200])
   \<and> (\<exists>h. serve_static ex_lib ex_fs
          (ex_get ''/style.css'' [(''If-Modified-Since'', ''last week'')])
          ''/srv/public/style.css'' False fresh = Inr h
      \<and> wire_status (wfile h) = Some 200
      \<and> wire_status_lines (wfile h) = [200]
      \<and> wire_body (wfile h) = ''body { margin: 0 }''
      \<and> serve_static ex_lib ex_fs
          (without_header ''If-Modified-Since''
             (ex_get ''/style.css'' [(''If-Modified-Since'', ''last week'')]))
          ''/srv/public/style.css'' False fresh = Inr h)"
proof -
  have inm: "headers_get (headers (ex_get ''/style.css'' [(''If-Modified-Since'', v)]))
               ''If-None-Match'' \<noteq> Some (sha1_hexdigest ex_lib ''body { margin: 0 }'')" for v
    by (simp add: ex_get_def) code_simp
  have ims: "headers_get (headers (ex_get ''/style.css'' [(''If-Modified-Since'', v)]))
               ''If-Modified-Since'' = Some v" for v
    by (simp add: ex_get_def)
  have p: "parsedate_to_datetime ex_lib ''Thu, 01 Jan 1970 00:00:20 GMT'' = Inr (Aware 20000000)"
    "parsedate_to_datetime ex_lib ''Thu, 01 Jan 1970 00:00:10 GMT'' = Inr (Aware 10000000)"
    "isl (parsedate_to_datetime ex_lib ''last week'')"
    "\<not> should_gzip ex_lib (ex_get ''/style.css'' [(''If-Modified-Since'', ''last week'')])
         ''/srv/public/style.css''"
    by code_simp+
  from p(3) obtain e where p3: "parsedate_to_datetime ex_lib ''last week'' = Inl e"
    by (cases "parsedate_to_datetime ex_lib ''last week''") auto
  have "\<exists>h. serve_static ex_lib ex_fs
          (ex_get ''/style.css'' [(''If-Modified-Since'', ''Thu, 01 Jan 1970 00:00:20 GMT'')])
          ''/srv/public/style.css'' False fresh = Inr h
      \<and> wire_status (wfile h) = Some 200
      \<and> wire_status_lines (wfile h) = [200, 304]"
    using if_modified_since_decision
      [OF ex_style(1,2) inm ims, of "''Thu, 01 Jan 1970 00:00:20 GMT''" False]
    by (auto simp add: p instant_def)
  moreover have "\<exists>h. serve_static ex_lib ex_fs
          (ex_get ''/style.css'' [(''If-Modified-Since'', ''Thu, 01 Jan 1970 00:00:10 GMT'')])
          ''/srv/public/style.css'' False fresh = Inr h
      \<and> wire_status (wfile h) = Some 200
      \<and> wire_status_lines (wfile h) = [200]"
    using if_modified_since_decision [OF ex_style(1,2) inm ims, of "''Thu, 01 Jan 1970 00:00:10 GMT''" False] 
    by (auto simp add: p instant_def)
  moreover have "\<exists>h. serve_static ex_lib ex_fs
          (ex_get ''/style.css'' [(''If-Modified-Since'', ''last week'')])
          ''/srv/public/style.css'' False fresh = Inr h
      \<and> wire_status (wfile h) = Some 200
      \<and> wire_status_lines (wfile h) = [200]
      \<and> wire_body (wfile h) = ''body { margin: 0 }''
      \<and> serve_static ex_lib ex_fs
          (without_header ''If-Modified-Since''
             (ex_get ''/style.css'' [(''If-Modified-Since'', ''last week'')]))
          ''/srv/public/style.css'' False fresh = Inr h"
    using if_modified_since_decision [OF ex_style(1,2) inm ims, of "''last week''" False] 
    by (auto simp add: p p3)
  ultimately show ?thesis by blast
qed

section \<open>Routing\<close>

lemma urlparse_status_query:
  "urlparse_path chk (''/_status?'' @ q) = Inr ''/_status''"
  by (simp add: urlparse_path_def split_scheme_def isascii_alpha_def Let_def uses_params_def)

lemma normalized_status_query:
  "normalized_path lib (''/_status?'' @ q) = Inr ''_status''"
proof -
  have "normpath (unquote (lstrip ''/_status'' ''/'')) = ''_status''"
    and "unquote (lstrip ''/_status'' ''/'') \<noteq> []"
    by code_simp+
  then show ?thesis
    using urlparse_status_query [of "check_netloc lib" q]
    by (simp add: normalized_path_def)
qed


lemma startswith_api_not_status: "startswith p ''/api'' \<Longrightarrow> p \<noteq> ''/_status''"
  by (auto simp add: startswith_def)

lemma status_query_not_api: "\<not> startswith (''/_status?'' @ q) ''/api''"
  by (simp add: startswith_def)

lemma response_unsupported:
  assumes "command req \<noteq> ''GET''" and "command req \<noteq> ''HEAD''"
  shows "response cfg lib fs backend req
         = wfile (send_error lib req 501
                    (''Unsupported method ('' @ py_repr (command req) @ '')'') fresh)"
    and "wire_status (response cfg lib fs backend req) = Some 501"
  using assms
  by (simp_all add: response_def handle_one_request_def send_error_def Let_def handler_ops)

text \<open>
  Claim C9 says that every request whose path begins with \<open>/api\<close> is dispatched to the
  reverse proxy. The classification is made inside \<open>do_GET\<close>, and the handler class has
  no method for any command but GET and HEAD: a POST to \<open>/api/events\<close> is answered 501
  by the library, whatever the backend is.
\<close>

theorem post_api_not_proxied:
  "startswith (path ex_api_post) ''/api''
   \<and> wire_status (response ex_cfg ex_lib ex_fs ex_backend ex_api_post) = Some 501
   \<and> wire_reason (response ex_cfg ex_lib ex_fs ex_backend ex_api_post)
       = Some (''Unsupported method ('' @ squote ''POST'' @ '')'')
   \<and> response ex_cfg ex_lib ex_fs ex_backend ex_api_post
       = response ex_cfg ex_lib ex_fs ex_backend_down ex_api_post"
proof -
  have c: "command ex_api_post \<noteq> ''GET''" "command ex_api_post \<noteq> ''HEAD''"
    "startswith (path ex_api_post) ''/api''"
    "py_repr (command ex_api_post) = squote ''POST''"
    by code_simp+
  show ?thesis
    using c response_unsupported [OF c(1,2)]
    by (simp add: send_error_def Let_def handler_ops)
qed

text \<open>
  Claim C9, amended. The proxy route is a test on the prefix of the path inside
  \<open>do_GET\<close>: every GET or HEAD request whose path starts with the characters \<open>/api\<close> (so
  \<open>/apifoo\<close> as well) is handled by \<open>_handle_proxy\<close>, whatever the file system holds; a
  request with any other command is answered 501. The status route is a test for
  equality: \<open>/_status\<close> followed by a query string is resolved as the static file
  \<open>_status\<close>.
\<close>

theorem proxy_prefix_dispatch:
  "(startswith (path req) ''/api'' \<longrightarrow>
      do_GET cfg lib fs backend req head_only h = (handle_proxy cfg lib backend req h, None))
   \<and> ((command req = ''GET'' \<or> command req = ''HEAD'') \<and> startswith (path req) ''/api'' \<longrightarrow>
      response cfg lib fs backend req = wfile (handle_proxy cfg lib backend req fresh))
   \<and> (command req \<noteq> ''GET'' \<and> command req \<noteq> ''HEAD'' \<longrightarrow>
      wire_status (response cfg lib fs backend req) = Some 501)
   \<and> (path req = ''/_status?'' @ q \<longrightarrow>
      do_GET_try cfg lib fs backend req head_only h
        = serve_normalized cfg lib fs req ''_status'' head_only h)"
proof (intro conjI impI)
  assume a: "startswith (path req) ''/api''"
  with startswith_api_not_status [OF a]
  show "do_GET cfg lib fs backend req head_only h = (handle_proxy cfg lib backend req h, None)"
    by (simp add: do_GET_def do_GET_try_def)
next
  assume a: "(command req = ''GET'' \<or> command req = ''HEAD'') \<and> startswith (path req) ''/api''"
  then have s: "startswith (path req) ''/api''" by simp
  have "do_GET cfg lib fs backend req ho fresh = (handle_proxy cfg lib backend req fresh, None)"
    for ho
    using s startswith_api_not_status [OF s] by (simp add: do_GET_def do_GET_try_def)
  with a show "response cfg lib fs backend req = wfile (handle_proxy cfg lib backend req fresh)"
    by (auto simp add: response_def handle_one_request_def do_HEAD_def)
next
  assume "command req \<noteq> ''GET'' \<and> command req \<noteq> ''HEAD''"
  then show "wire_status (response cfg lib fs backend req) = Some 501"
    using response_unsupported(2) by blast
next
  assume q: "path req = ''/_status?'' @ q"
  have ns: "path req \<noteq> ''/_status''" using q by simp
  have na: "\<not> startswith (path req) ''/api''" using q status_query_not_api by simp
  have np: "normalized_path lib (path req) = Inr ''_status''"
    using q normalized_status_query by simp
  have "\<not> startswith ''_status'' ''..''" by (simp add: startswith_def)
  with do_GET_try_static [OF ns na np]
  show "do_GET_try cfg lib fs backend req head_only h
        = serve_normalized cfg lib fs req ''_status'' head_only h"
    by simp
qed

lemma response_static_full:
  assumes "command req = ''GET''"
    and "path req \<noteq> ''/_status''" and "\<not> startswith (path req) ''/api''"
    and "normalized_path lib (path req) = Inr normalized"
    and "\<not> startswith normalized ''..''"
    and "\<not> isdir fs (path_join (PUBLIC_DIR cfg) normalized)"
    and "path_exists fs (path_join (PUBLIC_DIR cfg) normalized)"
    and "read_file_bytes fs (path_join (PUBLIC_DIR cfg) normalized) = Inr data"
    and "st_mtime fs (path_join (PUBLIC_DIR cfg) normalized) = Inr mtime"
    and "\<not> conditional_hit lib req data mtime"
    and "\<not> should_gzip lib req (path_join (PUBLIC_DIR cfg) normalized)"
  shows "response cfg lib fs backend req =
     [Head (static_head lib (path_join (PUBLIC_DIR cfg) normalized) data mtime
            @ [HeaderLine ''Content-Length'' (str_nat (length data))]),
      Body data]"
proof -
  have "do_GET_try cfg lib fs backend req (command req = ''HEAD'') fresh =
        serve_static lib fs req (path_join (PUBLIC_DIR cfg) normalized) False fresh"
    using do_GET_try_static [OF assms(2,3,4)] assms(1,5) serve_normalized_file [OF assms(6,7)]
    by simp
  with serve_static_full [OF assms(8,9,10), of False] assms(1,11)
  show ?thesis by (simp add: response_of_try)
qed

theorem proxy_prefix_dispatch_witness:
  "do_GET ex_cfg ex_lib ex_fs ex_backend_down (ex_get ''/apifoo'' []) False fresh
     = (handle_proxy ex_cfg ex_lib ex_backend_down (ex_get ''/apifoo'' []) fresh, None)
   \<and> response ex_cfg ex_lib ex_fs ex_backend_down (ex_get ''/apifoo'' [])
     = wfile (handle_proxy ex_cfg ex_lib ex_backend_down (ex_get ''/apifoo'' []) fresh)
   \<and> wire_status (response ex_cfg ex_lib ex_fs ex_backend ex_api_post) = Some 501
   \<and> do_GET_try ex_cfg ex_lib ex_fs ex_backend (ex_get ''/_status?x=1'' []) False fresh
      = serve_normalized ex_cfg ex_lib ex_fs (ex_get ''/_status?x=1'' []) ''_status'' False fresh
   \<and> wire_body (response ex_cfg ex_lib ex_fs ex_backend (ex_get ''/_status?x=1'' []))
      = ''a file named _status''"
proof -
  have a: "startswith (path (ex_get ''/apifoo'' [])) ''/api''"
    "command (ex_get ''/apifoo'' []) = ''GET''"
    and b: "path (ex_get ''/_status?x=1'' []) = ''/_status?'' @ ''x=1''"
    and c: "command ex_api_post \<noteq> ''GET''" "command ex_api_post \<noteq> ''HEAD''"
    by code_simp+
  have f: "command (ex_get ''/_status?x=1'' []) = ''GET''"
    "path (ex_get ''/_status?x=1'' []) \<noteq> ''/_status''"
    "\<not> startswith (path (ex_get ''/_status?x=1'' [])) ''/api''"
    "normalized_path ex_lib (path (ex_get ''/_status?x=1'' [])) = Inr ''_status''"
    "\<not> startswith ''_status'' ''..''"
    "\<not> isdir ex_fs (path_join (PUBLIC_DIR ex_cfg) ''_status'')"
    "path_exists ex_fs (path_join (PUBLIC_DIR ex_cfg) ''_status'')"
    "read_file_bytes ex_fs (path_join (PUBLIC_DIR ex_cfg) ''_status'') = Inr ''a file named _status''"
    "st_mtime ex_fs (path_join (PUBLIC_DIR ex_cfg) ''_status'') = Inr 20000000"
    "\<not> conditional_hit ex_lib (ex_get ''/_status?x=1'' []) ''a file named _status'' 20000000"
    "\<not> should_gzip ex_lib (ex_get ''/_status?x=1'' []) (path_join (PUBLIC_DIR ex_cfg) ''_status'')"
    by code_simp+
  note r = response_static_full [OF f, of ex_backend]
  note t1 = proxy_prefix_dispatch
    [of "ex_get ''/apifoo'' []" ex_cfg ex_lib ex_fs ex_backend_down False fresh]
  from t1 a
  have 1: "do_GET ex_cfg ex_lib ex_fs ex_backend_down (ex_get ''/apifoo'' []) False fresh
     = (handle_proxy ex_cfg ex_lib ex_backend_down (ex_get ''/apifoo'' []) fresh, None)
   \<and> response ex_cfg ex_lib ex_fs ex_backend_down (ex_get ''/apifoo'' [])
     = wfile (handle_proxy ex_cfg ex_lib ex_backend_down (ex_get ''/apifoo'' []) fresh)"
    by simp
  note t2 = proxy_prefix_dispatch [of ex_api_post ex_cfg ex_lib ex_fs ex_backend False fresh]
  from t2 c
  have 2: "wire_status (response ex_cfg ex_lib ex_fs ex_backend ex_api_post) = Some 501"
    by simp
  note t3 = proxy_prefix_dispatch
    [of "ex_get ''/_status?x=1'' []" ex_cfg ex_lib ex_fs ex_backend False fresh "''x=1''"]
  from t3 b
  have 3: "do_GET_try ex_cfg ex_lib ex_fs ex_backend (ex_get ''/_status?x=1'' []) False fresh
      = serve_normalized ex_cfg ex_lib ex_fs (ex_get ''/_status?x=1'' []) ''_status'' False fresh"
    by simp
  show ?thesis using 1 2 3 r by simp
qed

section \<open>Path traversal\<close>

text \<open>
  A normalized relative path that starts with \<open>..\<close> is answered 403 before the path is
  joined to the document root: the response does not depend on the file system.
\<close>

lemma traversal_forbidden:
  assumes "path req \<noteq> ''/_status''" and "\<not> startswith (path req) ''/api''"
    and "normalized_path lib (path req) = Inr normalized"
    and "startswith normalized ''..''"
  shows "do_GET cfg lib fs backend req head_only h
         = (send_error lib req 403 ''Forbidden'' h, None)"
  using do_GET_try_static [OF assms(1,2,3)] assms(4) by (simp add: do_GET_def)

text \<open>
  Claim C2. Static resolution should never read outside the document root. The check
  looks for a leading \<open>..\<close> only: the path \<open>/%2Fetc/passwd\<close> decodes to the absolute path
  \<open>/etc/passwd\<close>, which \<open>normpath\<close> keeps, and \<open>os.path.join\<close> discards the document
  root in front of an absolute component. The server answers 200 with the bytes of
  \<open>/etc/passwd\<close>.
\<close>

theorem traversal_absolute_path:
  "normalized_path ex_lib ''/%2Fetc/passwd'' = Inr ''/etc/passwd''
   \<and> path_join (PUBLIC_DIR ex_cfg) ''/etc/passwd'' = ''/etc/passwd''
   \<and> \<not> startswith ''/etc/passwd'' (PUBLIC_DIR ex_cfg)
   \<and> wire_status (response ex_cfg ex_lib ex_fs ex_backend (ex_get ''/%2Fetc/passwd'' []))
       = Some 200
   \<and> wire_body (response ex_cfg ex_lib ex_fs ex_backend (ex_get ''/%2Fetc/passwd'' []))
       = ''root:x:0:0:root:/root:/bin/sh''"
proof -
  have j: "path_join (PUBLIC_DIR ex_cfg) ''/etc/passwd'' = ''/etc/passwd''"
    and n: "normalized_path ex_lib ''/%2Fetc/passwd'' = Inr ''/etc/passwd''"
    and o: "\<not> startswith ''/etc/passwd'' (PUBLIC_DIR ex_cfg)"
    by code_simp+
  have f: "command (ex_get ''/%2Fetc/passwd'' []) = ''GET''"
    "path (ex_get ''/%2Fetc/passwd'' []) \<noteq> ''/_status''"
    "\<not> startswith (path (ex_get ''/%2Fetc/passwd'' [])) ''/api''"
    "normalized_path ex_lib (path (ex_get ''/%2Fetc/passwd'' [])) = Inr ''/etc/passwd''"
    "\<not> startswith ''/etc/passwd'' ''..''"
    "\<not> isdir ex_fs (path_join (PUBLIC_DIR ex_cfg) ''/etc/passwd'')"
    "path_exists ex_fs (path_join (PUBLIC_DIR ex_cfg) ''/etc/passwd'')"
    "read_file_bytes ex_fs (path_join (PUBLIC_DIR ex_cfg) ''/etc/passwd'')
       = Inr ''root:x:0:0:root:/root:/bin/sh''"
    "st_mtime ex_fs (path_join (PUBLIC_DIR ex_cfg) ''/etc/passwd'') = Inr 20000000"
    "\<not> conditional_hit ex_lib (ex_get ''/%2Fetc/passwd'' []) ''root:x:0:0:root:/root:/bin/sh''
         20000000"
    "\<not> should_gzip ex_lib (ex_get ''/%2Fetc/passwd'' [])
         (path_join (PUBLIC_DIR ex_cfg) ''/etc/passwd'')"
    by code_simp+
  from response_static_full [OF f, of ex_backend] j n o show ?thesis
    by (simp add: static_head_def)
qed

section \<open>Fallback to the index page\<close>

lemma index_is_html: "cache_control_of (path_join root ''index.html'') = ''no-cache''"
proof -
  have s1: "suffix ''.html'' (root @ ''index.html'')"
    by (rule suffixI [of _ "root @ ''index''"]) simp
  have s2: "suffix ''.html'' (root @ ''/index.html'')"
    by (rule suffixI [of _ "root @ ''/index''"]) simp
  show ?thesis
    by (simp add: cache_control_of_def path_join_def endswith_def startswith_def s1 s2)
qed

lemma normalized_empty:
  assumes "urlparse_path (check_netloc lib) p = Inr parsed"
    and "unquote (lstrip parsed ''/'') = []"
  shows "normalized_path lib p = Inr ''index.html''"
proof -
  have "normpath ''index.html'' = ''index.html''" by code_simp
  with assms show ?thesis by (simp add: normalized_path_def)
qed

lemma serve_normalized_fallback:
  assumes "\<not> path_exists fs
           (if isdir fs (path_join (PUBLIC_DIR cfg) normalized)
            then path_join (path_join (PUBLIC_DIR cfg) normalized) ''index.html''
            else path_join (PUBLIC_DIR cfg) normalized)"
  shows "serve_normalized cfg lib fs req normalized head_only h =
     (if path_exists fs (path_join (PUBLIC_DIR cfg) ''index.html'')
      then serve_static lib fs req (path_join (PUBLIC_DIR cfg) ''index.html'') head_only h
      else Inr (send_error lib req 404 ''Not Found'' h))"
  using assms by (simp add: serve_normalized_def Let_def)

lemma wire_status_send_error:
  "wire_status (wfile (send_error lib req code message fresh)) = Some code"
  by (simp add: send_error_def Let_def handler_ops split: option.splits)

text \<open>A path of the concrete environment that names no file.\<close>

lemma ex_settings_route:
  "path (ex_get ''/app/settings'' hs) \<noteq> ''/_status''"
  "\<not> startswith (path (ex_get ''/app/settings'' hs)) ''/api''"
  "normalized_path ex_lib (path (ex_get ''/app/settings'' hs)) = Inr ''app/settings''"
  "command (ex_get ''/app/settings'' hs) = ''GET''"
proof -
  have "path (ex_get ''/app/settings'' hs) = ''/app/settings''"
    "command (ex_get ''/app/settings'' hs) = ''GET''"
    by (simp_all add: ex_get_def)
  moreover have "''/app/settings'' \<noteq> ''/_status''" "\<not> startswith ''/app/settings'' ''/api''"
    "normalized_path ex_lib ''/app/settings'' = Inr ''app/settings''"
    by code_simp+
  ultimately show "path (ex_get ''/app/settings'' hs) \<noteq> ''/_status''"
    "\<not> startswith (path (ex_get ''/app/settings'' hs)) ''/api''"
    "normalized_path ex_lib (path (ex_get ''/app/settings'' hs)) = Inr ''app/settings''"
    "command (ex_get ''/app/settings'' hs) = ''GET''"
    by simp_all
qed

text \<open>
  Claim C5 says that a path whose file does not exist is answered 200 with the exact
  content of \<open>index.html\<close> whenever that file exists. When \<open>index.html\<close> exists and
  cannot be read the response is 500, and a request that revalidates with the digest of
  \<open>index.html\<close> receives no body.
\<close>

theorem fallback_without_content:
  "path_exists ex_fs_locked (path_join (PUBLIC_DIR ex_cfg) ''index.html'')
   \<and> \<not> path_exists ex_fs_locked (path_join (PUBLIC_DIR ex_cfg) ''app/settings'')
   \<and> wire_status (response ex_cfg ex_lib ex_fs_locked ex_backend (ex_get ''/app/settings'' []))
       = Some 500
   \<and> read_file_bytes ex_fs (path_join (PUBLIC_DIR ex_cfg) ''index.html'') = Inr ''<h1>home</h1>''
   \<and> \<not> path_exists ex_fs (path_join (PUBLIC_DIR ex_cfg) ''app/settings'')
   \<and> wire_body (response ex_cfg ex_lib ex_fs ex_backend
         (ex_get ''/app/settings'' [(''If-None-Match'', ''sha1-<h1>home</h1>'')])) = []"
proof -
  have n: "\<not> startswith ''app/settings'' ''..''" by code_simp
  have l: "path_exists ex_fs_locked (path_join (PUBLIC_DIR ex_cfg) ''index.html'')"
    "\<not> path_exists ex_fs_locked (path_join (PUBLIC_DIR ex_cfg) ''app/settings'')"
    "\<not> path_exists ex_fs_locked
           (if isdir ex_fs_locked (path_join (PUBLIC_DIR ex_cfg) ''app/settings'')
            then path_join (path_join (PUBLIC_DIR ex_cfg) ''app/settings'') ''index.html''
            else path_join (PUBLIC_DIR ex_cfg) ''app/settings'')"
    "read_file_bytes ex_fs_locked (path_join (PUBLIC_DIR ex_cfg) ''index.html'')
     = Inl (Exn (''[Errno 13] Permission denied: '' @ squote ''/srv/public/index.html''))"
    by code_simp+
  have g: "path_exists ex_fs (path_join (PUBLIC_DIR ex_cfg) ''index.html'')"
    "\<not> path_exists ex_fs (path_join (PUBLIC_DIR ex_cfg) ''app/settings'')"
    "\<not> path_exists ex_fs
           (if isdir ex_fs (path_join (PUBLIC_DIR ex_cfg) ''app/settings'')
            then path_join (path_join (PUBLIC_DIR ex_cfg) ''app/settings'') ''index.html''
            else path_join (PUBLIC_DIR ex_cfg) ''app/settings'')"
    "read_file_bytes ex_fs (path_join (PUBLIC_DIR ex_cfg) ''index.html'') = Inr ''<h1>home</h1>''"
    "st_mtime ex_fs (path_join (PUBLIC_DIR ex_cfg) ''index.html'') = Inr 20000000"
    "conditional_hit ex_lib (ex_get ''/app/settings'' [(''If-None-Match'', ''sha1-<h1>home</h1>'')])
       ''<h1>home</h1>'' 20000000"
    by code_simp+
  have "do_GET_try ex_cfg ex_lib ex_fs_locked ex_backend (ex_get ''/app/settings'' []) False fresh
        = Inl (Exn (''[Errno 13] Permission denied: '' @ squote ''/srv/public/index.html''))"
    using do_GET_try_static [OF ex_settings_route(1,2,3) [of "[]"], where cfg = ex_cfg
        and fs = ex_fs_locked and backend = ex_backend and head_only = False and h = fresh]
      n l(1) serve_normalized_fallback [OF l(3)] serve_static_raises(1) [OF l(4)]
    by simp
  then have 1: "wire_status (response ex_cfg ex_lib ex_fs_locked ex_backend
                   (ex_get ''/app/settings'' [])) = Some 500"
    using ex_settings_route(4) [of "[]"]
    by (simp add: response_def handle_one_request_def do_GET_def wire_status_send_error)
  have "do_GET_try ex_cfg ex_lib ex_fs ex_backend
          (ex_get ''/app/settings'' [(''If-None-Match'', ''sha1-<h1>home</h1>'')])
          (command (ex_get ''/app/settings'' [(''If-None-Match'', ''sha1-<h1>home</h1>'')])
             = ''HEAD'') fresh
        = Inr \<lparr>headers_buffer = [],
               wfile = [Head (static_head ex_lib (path_join (PUBLIC_DIR ex_cfg) ''index.html'')
                                ''<h1>home</h1>'' 20000000 @ not_modified_lines ex_lib)]\<rparr>"
    using do_GET_try_static
        [OF ex_settings_route(1,2,3) [of "[(''If-None-Match'', ''sha1-<h1>home</h1>'')]"],
          where cfg = ex_cfg and fs = ex_fs and backend = ex_backend and head_only = False
          and h = fresh]
      n g(1) serve_normalized_fallback [OF g(3)] serve_static_hit [OF g(4,5,6)]
      ex_settings_route(4) [of "[(''If-None-Match'', ''sha1-<h1>home</h1>'')]"]
    by simp
  from response_of_try [OF _ this] ex_settings_route(4)
  have 2: "wire_body (response ex_cfg ex_lib ex_fs ex_backend
         (ex_get ''/app/settings'' [(''If-None-Match'', ''sha1-<h1>home</h1>'')])) = []"
    by simp
  from 1 2 l(1,2) g(2,4) show ?thesis by simp
qed

text \<open>
  Claim C5, amended. For a path of the static route whose file does not exist: when
  \<open>index.html\<close> exists at the document root and can be read, the \<open>Cache-Control\<close> is
  \<open>no-cache\<close> and, unless a conditional header cuts the response short, the status is
  200 and the body is the content of \<open>index.html\<close> (gzip-encoded when that was
  negotiated, none for a HEAD); when it exists and cannot be read the response is 500;
  when it does not exist the response is 404. A path that decodes to the empty string
  is the path \<open>index.html\<close>.
\<close>

theorem spa_fallback:
  assumes "path req \<noteq> ''/_status''" and "\<not> startswith (path req) ''/api''"
    and "normalized_path lib (path req) = Inr normalized"
    and "\<not> startswith normalized ''..''"
    and "\<not> path_exists fs
           (if isdir fs (path_join (PUBLIC_DIR cfg) normalized)
            then path_join (path_join (PUBLIC_DIR cfg) normalized) ''index.html''
            else path_join (PUBLIC_DIR cfg) normalized)"
  shows "(path_exists fs (path_join (PUBLIC_DIR cfg) ''index.html'')
          \<and> read_file_bytes fs (path_join (PUBLIC_DIR cfg) ''index.html'') = Inr data
          \<and> st_mtime fs (path_join (PUBLIC_DIR cfg) ''index.html'') = Inr mtime
          \<longrightarrow> (\<exists>h. do_GET cfg lib fs backend req head_only fresh = (h, None)
                \<and> wire_header (wfile h) ''Cache-Control'' = [''no-cache'']
                \<and> (\<not> conditional_hit lib req data mtime
                     \<longrightarrow> wire_status (wfile h) = Some 200
                         \<and> wire_status_lines (wfile h) = [200]
                         \<and> wire_body (wfile h) =
                             (if head_only then []
                              else if should_gzip lib req (path_join (PUBLIC_DIR cfg) ''index.html'')
                              then gzip_write lib data else data))))
       \<and> (path_exists fs (path_join (PUBLIC_DIR cfg) ''index.html'')
          \<and> (read_file_bytes fs (path_join (PUBLIC_DIR cfg) ''index.html'') = Inl e
               \<or> read_file_bytes fs (path_join (PUBLIC_DIR cfg) ''index.html'') = Inr data
                  \<and> st_mtime fs (path_join (PUBLIC_DIR cfg) ''index.html'') = Inl e)
          \<longrightarrow> do_GET cfg lib fs backend req head_only fresh
                = (send_error lib req 500 (''Server error: '' @ exn_text e) fresh, Some e)
              \<and> wire_status (wfile (send_error lib req 500 (''Server error: '' @ exn_text e) fresh))
                 = Some 500)
       \<and> (\<not> path_exists fs (path_join (PUBLIC_DIR cfg) ''index.html'')
          \<longrightarrow> do_GET cfg lib fs backend req head_only fresh
                = (send_error lib req 404 ''Not Found'' fresh, None)
              \<and> wire_status (wfile (send_error lib req 404 ''Not Found'' fresh)) = Some 404)
       \<and> (\<forall>parsed. urlparse_path (check_netloc lib) (path req) = Inr parsed
                    \<and> unquote (lstrip parsed ''/'') = []
           \<longrightarrow> normalized = ''index.html'')"
proof (intro conjI impI allI)
  let ?fb = "path_join (PUBLIC_DIR cfg) ''index.html''"
  have t: "do_GET_try cfg lib fs backend req head_only fresh =
     (if path_exists fs ?fb then serve_static lib fs req ?fb head_only fresh
      else Inr (send_error lib req 404 ''Not Found'' fresh))"
    using do_GET_try_static [OF assms(1,2,3)] assms(4) serve_normalized_fallback [OF assms(5)]
    by simp
  {
    assume a: "path_exists fs ?fb \<and> read_file_bytes fs ?fb = Inr data
               \<and> st_mtime fs ?fb = Inr mtime"
    then have rd: "read_file_bytes fs ?fb = Inr data" and mt: "st_mtime fs ?fb = Inr mtime"
      by simp_all
    obtain h rest bodies where e: "serve_static lib fs req ?fb head_only fresh = Inr h"
      by (rule serve_static_wire [OF rd mt])
    note c = serve_static_cache_headers [OF rd mt e]
    have b: "\<not> conditional_hit lib req data mtime
             \<longrightarrow> wire_status (wfile h) = Some 200
                 \<and> wire_status_lines (wfile h) = [200]
                 \<and> wire_body (wfile h) =
                     (if head_only then []
                      else if should_gzip lib req ?fb then gzip_write lib data else data)"
    proof
      assume n: "\<not> conditional_hit lib req data mtime"
      from serve_static_full [OF rd mt n, of head_only] e c(5)
      show "wire_status (wfile h) = Some 200
                 \<and> wire_status_lines (wfile h) = [200]
                 \<and> wire_body (wfile h) =
                     (if head_only then []
                      else if should_gzip lib req ?fb then gzip_write lib data else data)"
        by (auto simp add: static_head_def)
    qed
    from t a e c(3) b
    show "\<exists>h. do_GET cfg lib fs backend req head_only fresh = (h, None)
                \<and> wire_header (wfile h) ''Cache-Control'' = [''no-cache'']
                \<and> (\<not> conditional_hit lib req data mtime
                     \<longrightarrow> wire_status (wfile h) = Some 200
                         \<and> wire_status_lines (wfile h) = [200]
                         \<and> wire_body (wfile h) =
                             (if head_only then []
                              else if should_gzip lib req ?fb then gzip_write lib data else data))"
      by (simp add: do_GET_def index_is_html)
  }
  {
    assume a: "path_exists fs ?fb
          \<and> (read_file_bytes fs ?fb = Inl e
               \<or> read_file_bytes fs ?fb = Inr data \<and> st_mtime fs ?fb = Inl e)"
    then have "serve_static lib fs req ?fb head_only fresh = Inl e"
      using serve_static_raises by blast
    with t a show "do_GET cfg lib fs backend req head_only fresh
                = (send_error lib req 500 (''Server error: '' @ exn_text e) fresh, Some e)"
      by (simp add: do_GET_def)
  }
  show "wire_status (wfile (send_error lib req 500 (''Server error: '' @ exn_text e) fresh))
        = Some 500"
    by (rule wire_status_send_error)
  {
    assume a: "\<not> path_exists fs ?fb"
    with t show "do_GET cfg lib fs backend req head_only fresh
                = (send_error lib req 404 ''Not Found'' fresh, None)"
      by (simp add: do_GET_def)
  }
  show "wire_status (wfile (send_error lib req 404 ''Not Found'' fresh)) = Some 404"
    by (rule wire_status_send_error)
  {
    fix parsed
    assume "urlparse_path (check_netloc lib) (path req) = Inr parsed
          \<and> unquote (lstrip parsed ''/'') = []"
    then have "normalized_path lib (path req) = Inr ''index.html''"
      using normalized_empty by blast
    with assms(3) show "normalized = ''index.html''" by simp
  }
qed

theorem spa_fallback_witness:
  "(\<exists>h. do_GET ex_cfg ex_lib ex_fs ex_backend (ex_get ''/app/settings'' []) False fresh = (h, None)
       \<and> wire_status (wfile h) = Some 200
       \<and> wire_header (wfile h) ''Cache-Control'' = [''no-cache'']
       \<and> wire_body (wfile h) = ''<h1>home</h1>'')
   \<and> do_GET ex_cfg ex_lib ex_fs_bare ex_backend (ex_get ''/app/settings'' []) False fresh
       = (send_error ex_lib (ex_get ''/app/settings'' []) 404 ''Not Found'' fresh, None)
   \<and> wire_status (wfile (send_error ex_lib (ex_get ''/app/settings'' []) 404 ''Not Found'' fresh))
       = Some 404"
proof -
  have f: "path (ex_get ''/app/settings'' []) \<noteq> ''/_status''"
    "\<not> startswith (path (ex_get ''/app/settings'' [])) ''/api''"
    "normalized_path ex_lib (path (ex_get ''/app/settings'' [])) = Inr ''app/settings''"
    "\<not> startswith ''app/settings'' ''..''"
    by code_simp+
  have m: "\<not> path_exists ex_fs
           (if isdir ex_fs (path_join (PUBLIC_DIR ex_cfg) ''app/settings'')
            then path_join (path_join (PUBLIC_DIR ex_cfg) ''app/settings'') ''index.html''
            else path_join (PUBLIC_DIR ex_cfg) ''app/settings'')"
    and m': "\<not> path_exists ex_fs_bare
           (if isdir ex_fs_bare (path_join (PUBLIC_DIR ex_cfg) ''app/settings'')
            then path_join (path_join (PUBLIC_DIR ex_cfg) ''app/settings'') ''index.html''
            else path_join (PUBLIC_DIR ex_cfg) ''app/settings'')"
    by code_simp+
  have g: "path_exists ex_fs (path_join (PUBLIC_DIR ex_cfg) ''index.html'')"
    "read_file_bytes ex_fs (path_join (PUBLIC_DIR ex_cfg) ''index.html'') = Inr ''<h1>home</h1>''"
    "st_mtime ex_fs (path_join (PUBLIC_DIR ex_cfg) ''index.html'') = Inr 20000000"
    "\<not> conditional_hit ex_lib (ex_get ''/app/settings'' []) ''<h1>home</h1>'' 20000000"
    "\<not> should_gzip ex_lib (ex_get ''/app/settings'' []) (path_join (PUBLIC_DIR ex_cfg) ''index.html'')"
    "\<not> path_exists ex_fs_bare (path_join (PUBLIC_DIR ex_cfg) ''index.html'')"
    by code_simp+
  from spa_fallback [OF f m, where data = "''<h1>home</h1>''" and mtime = 20000000
      and backend = ex_backend and head_only = False, THEN conjunct1] g(1-5)
  have 1: "\<exists>h. do_GET ex_cfg ex_lib ex_fs ex_backend (ex_get ''/app/settings'' []) False fresh = (h, None)
       \<and> wire_status (wfile h) = Some 200
       \<and> wire_header (wfile h) ''Cache-Control'' = [''no-cache'']
       \<and> wire_body (wfile h) = ''<h1>home</h1>''"
    by auto
  from spa_fallback [OF f m', where backend = ex_backend and head_only = False,
      THEN conjunct2, THEN conjunct2, THEN conjunct1] g(6)
  have 2: "do_GET ex_cfg ex_lib ex_fs_bare ex_backend (ex_get ''/app/settings'' []) False fresh
       = (send_error ex_lib (ex_get ''/app/settings'' []) 404 ''Not Found'' fresh, None)
   \<and> wire_status (wfile (send_error ex_lib (ex_get ''/app/settings'' []) 404 ''Not Found'' fresh))
       = Some 404"
    by simp
  from 1 2 show ?thesis by blast
qed

section \<open>Compression\<close>

text \<open>The conditional branches do not read \<open>Accept-Encoding\<close>.\<close>

lemma conditional_hit_cong:
  assumes "filter (\<lambda>(k, v). lower k \<noteq> ''accept-encoding'') (headers r1)
           = filter (\<lambda>(k, v). lower k \<noteq> ''accept-encoding'') (headers r2)"
  shows "conditional_hit lib r1 data mtime = conditional_hit lib r2 data mtime"
proof -
  have l: "lower ''Accept-Encoding'' = ''accept-encoding''"
    "lower ''If-None-Match'' \<noteq> lower ''Accept-Encoding''"
    "lower ''If-Modified-Since'' \<noteq> lower ''Accept-Encoding''"
    by code_simp+
  have "headers_get (headers r1) name = headers_get (headers r2) name"
    if "lower name \<noteq> lower ''Accept-Encoding''" for name
    using headers_get_filter [OF that, of "headers r1"] headers_get_filter [OF that, of "headers r2"]
      assms
    by (simp add: l(1))
  then show ?thesis
    by (simp add: conditional_hit_def l(2,3))
qed

text \<open>
  Claim C7. Take a compressible MIME type and two requests for the same file that differ
  only in \<open>Accept-Encoding\<close>, one listing \<open>gzip\<close> and one not, and let the response be a
  full one (no conditional branch taken). The body sent to the first is the compressed
  form of the bytes sent to the second, so decompressing it (\<open>gunzip\<close>, any left inverse
  of the compression of the library) gives exactly those bytes; its \<open>Content-Length\<close> is
  the length of the compressed body.
\<close>

theorem gzip_round_trip:
  assumes "\<forall>b. gunzip (gzip_write lib b) = b"
    and "read_file_bytes fs full_path = Inr data" and "st_mtime fs full_path = Inr mtime"
    and "filter (\<lambda>(k, v). lower k \<noteq> ''accept-encoding'') (headers r_gzip)
         = filter (\<lambda>(k, v). lower k \<noteq> ''accept-encoding'') (headers r_plain)"
    and "headers_get (headers r_gzip) ''Accept-Encoding'' = Some a" and "contains a ''gzip''"
    and "\<not> contains (case headers_get (headers r_plain) ''Accept-Encoding'' of
                        None \<Rightarrow> [] | Some v \<Rightarrow> v) ''gzip''"
    and "is_compressible (mime_of lib full_path)"
    and "\<not> conditional_hit lib r_gzip data mtime"
  shows "\<exists>h_gzip h_plain.
      serve_static lib fs r_gzip full_path False fresh = Inr h_gzip
    \<and> serve_static lib fs r_plain full_path False fresh = Inr h_plain
    \<and> wire_header (wfile h_gzip) ''Content-Encoding'' = [''gzip'']
    \<and> wire_header (wfile h_plain) ''Content-Encoding'' = []
    \<and> wire_body (wfile h_gzip) = gzip_write lib data
    \<and> wire_body (wfile h_plain) = data
    \<and> gunzip (wire_body (wfile h_gzip)) = wire_body (wfile h_plain)
    \<and> wire_header (wfile h_gzip) ''Content-Length''
        = [str_nat (length (wire_body (wfile h_gzip)))]"
proof -
  have g: "should_gzip lib r_gzip full_path"
    using assms(5,6,8) by (simp add: should_gzip_def)
  have p: "\<not> should_gzip lib r_plain full_path"
    using assms(7) by (simp add: should_gzip_def)
  have np: "\<not> conditional_hit lib r_plain data mtime"
    using conditional_hit_cong [OF assms(4)] assms(9) by simp
  note eg = serve_static_full [OF assms(2,3,9), of False]
  note ep = serve_static_full [OF assms(2,3) np, of False]
  show ?thesis
    using eg ep g p assms(1)
    by (simp add: wire_header_def static_head_def)
qed

theorem gzip_round_trip_witness:
  "\<exists>h_gzip h_plain.
      serve_static ex_lib ex_fs (ex_get ''/style.css'' [(''Accept-Encoding'', ''gzip, br'')])
        ''/srv/public/style.css'' False fresh = Inr h_gzip
    \<and> serve_static ex_lib ex_fs (ex_get ''/style.css'' [(''Accept-Encoding'', ''identity'')])
        ''/srv/public/style.css'' False fresh = Inr h_plain
    \<and> wire_header (wfile h_gzip) ''Content-Encoding'' = [''gzip'']
    \<and> wire_body (wfile h_gzip) = [CHR 0x1F, CHR 0x8B] @ ''body { margin: 0 }''
    \<and> wire_body (wfile h_plain) = ''body { margin: 0 }''
    \<and> ex_gunzip (wire_body (wfile h_gzip)) = wire_body (wfile h_plain)
    \<and> wire_header (wfile h_gzip) ''Content-Length'' = [''20'']"
proof -
  have rt: "\<forall>b. ex_gunzip (gzip_write ex_lib b) = b"
    by (simp add: ex_gunzip_def ex_lib_def)
  have f: "filter (\<lambda>(k, v). lower k \<noteq> ''accept-encoding'')
             (headers (ex_get ''/style.css'' [(''Accept-Encoding'', ''gzip, br'')]))
           = filter (\<lambda>(k, v). lower k \<noteq> ''accept-encoding'')
             (headers (ex_get ''/style.css'' [(''Accept-Encoding'', ''identity'')]))"
    "headers_get (headers (ex_get ''/style.css'' [(''Accept-Encoding'', ''gzip, br'')]))
       ''Accept-Encoding'' = Some ''gzip, br''"
    "contains ''gzip, br'' ''gzip''"
    "\<not> contains (case headers_get (headers (ex_get ''/style.css''
                        [(''Accept-Encoding'', ''identity'')])) ''Accept-Encoding'' of
                        None \<Rightarrow> [] | Some v \<Rightarrow> v) ''gzip''"
    "is_compressible (mime_of ex_lib ''/srv/public/style.css'')"
    "\<not> conditional_hit ex_lib (ex_get ''/style.css'' [(''Accept-Encoding'', ''gzip, br'')])
         ''body { margin: 0 }'' 20000000"
    by code_simp+
  have g: "gzip_write ex_lib ''body { margin: 0 }'' = [CHR 0x1F, CHR 0x8B] @ ''body { margin: 0 }''"
    "str_nat (length ([CHR 0x1F, CHR 0x8B] @ ''body { margin: 0 }'')) = ''20''"
    by code_simp+
  from gzip_round_trip [OF rt ex_style(1,2) f] g show ?thesis
    by auto
qed

section \<open>Error responses\<close>

lemma utf8_encode_nonempty: "s \<noteq> [] \<Longrightarrow> utf8_encode s \<noteq> []"
  by (cases s) (auto simp add: utf8_encode_def utf8_char_def Let_def)

lemma error_content_nonempty: "error_content code message explain \<noteq> []"
  by (simp add: error_content_def)

lemma send_error_fresh:
  assumes "200 \<le> code" and "code \<noteq> 204" and "code \<noteq> 205" and "code \<noteq> 304"
  shows "send_error lib req code message fresh =
     \<lparr>headers_buffer = [],
      wfile =
        Head [StatusLine code message,
              HeaderLine ''Server'' (version_string lib),
              HeaderLine ''Date'' (date_time_string lib),
              HeaderLine ''Connection'' ''close'',
              HeaderLine ''Content-Type'' ''text/html;charset=utf-8'',
              HeaderLine ''Content-Length''
                (str_nat (length (utf8_encode (error_content code message
                   (case responses code of Some (short, long) \<Rightarrow> long | None \<Rightarrow> ''???'')))))]
        # (if command req \<noteq> ''HEAD''
           then [Body (utf8_encode (error_content code message
                   (case responses code of Some (short, long) \<Rightarrow> long | None \<Rightarrow> ''???'')))]
           else [])\<rparr>"
  using assms utf8_encode_nonempty [OF error_content_nonempty]
  by (simp add: send_error_def Let_def send_response_def send_response_only_def send_header_def
      end_headers_def wfile_write_def fresh_def)

lemma sublist_skip: "sublist xs ys \<Longrightarrow> sublist xs (zs @ ys)"
  by (metis append.assoc sublist_def)

lemma error_content_contains_message:
  "contains (error_content code message explain) (html_escape message)"
  unfolding contains_def error_content_def
  by (rule sublist_append_rightI | rule sublist_skip)+

lemma utf8_encode_ascii:
  "list_all (\<lambda>c. (of_char c :: nat) < 128) s \<Longrightarrow> utf8_encode s = s"
  by (induction s) (auto simp add: utf8_encode_def utf8_char_def Let_def)

lemma proxy_try_backend_down:
  assumes "proxy_request cfg lib req = Inr ob" and "backend ob = Inl e"
  shows "proxy_try cfg lib backend req h = Inl (e, h)"
  using assms by (simp add: proxy_try_def)

text \<open>The unreadable file of the concrete environment: the read raises inside \<open>do_GET\<close>.\<close>

lemma ex_secret_raises:
  "do_GET_try ex_cfg ex_lib ex_fs backend (ex_get ''/secret.txt'' []) False fresh
   = Inl (Exn (''[Errno 13] Permission denied: '' @ squote ''/srv/public/secret.txt''))"
proof -
  have f: "path (ex_get ''/secret.txt'' []) \<noteq> ''/_status''"
    "\<not> startswith (path (ex_get ''/secret.txt'' [])) ''/api''"
    "normalized_path ex_lib (path (ex_get ''/secret.txt'' [])) = Inr ''secret.txt''"
    by code_simp+
  have g: "\<not> startswith ''secret.txt'' ''..''"
    "\<not> isdir ex_fs (path_join (PUBLIC_DIR ex_cfg) ''secret.txt'')"
    "path_exists ex_fs (path_join (PUBLIC_DIR ex_cfg) ''secret.txt'')"
    "read_file_bytes ex_fs (path_join (PUBLIC_DIR ex_cfg) ''secret.txt'')
     = Inl (Exn (''[Errno 13] Permission denied: '' @ squote ''/srv/public/secret.txt''))"
    by code_simp+
  show ?thesis
    using do_GET_try_static [OF f, of ex_cfg ex_fs backend False fresh] g(1)
      serve_normalized_file [OF g(2,3), of ex_lib "ex_get ''/secret.txt'' []" False fresh]
      serve_static_raises(1) [OF g(4), of ex_lib "ex_get ''/secret.txt'' []" False fresh]
    by simp
qed

text \<open>
  Claim C3 says that the body of an error response never carries exception detail or
  internal paths and that no exception propagates. For the file the server may not read,
  the body of the 500 response carries the text of the exception with the path of the
  file under the document root, and the exception leaves \<open>do_GET\<close>.
\<close>

theorem error_body_leaks_path:
  "snd (do_GET ex_cfg ex_lib ex_fs ex_backend (ex_get ''/secret.txt'' []) False fresh)
     = Some (Exn (''[Errno 13] Permission denied: '' @ squote ''/srv/public/secret.txt''))
   \<and> wire_status (response ex_cfg ex_lib ex_fs ex_backend (ex_get ''/secret.txt'' []))
       = Some 500
   \<and> contains (wire_body (response ex_cfg ex_lib ex_fs ex_backend (ex_get ''/secret.txt'' [])))
        ''[Errno 13] Permission denied''
   \<and> contains (wire_body (response ex_cfg ex_lib ex_fs ex_backend (ex_get ''/secret.txt'' [])))
        ''/srv/public/secret.txt''"
proof -
  have c: "command (ex_get ''/secret.txt'' []) = ''GET''" by code_simp
  have b: "contains (utf8_encode (error_content 500
             (''Server error: '' @ exn_text (Exn (''[Errno 13] Permission denied: ''
                                                  @ squote ''/srv/public/secret.txt'')))
             ''Server got itself in trouble'')) ''[Errno 13] Permission denied''"
    "contains (utf8_encode (error_content 500
             (''Server error: '' @ exn_text (Exn (''[Errno 13] Permission denied: ''
                                                  @ squote ''/srv/public/secret.txt'')))
             ''Server got itself in trouble'')) ''/srv/public/secret.txt''"
    by code_simp+
  have d: "do_GET ex_cfg ex_lib ex_fs ex_backend (ex_get ''/secret.txt'' []) False fresh
     = (send_error ex_lib (ex_get ''/secret.txt'' []) 500
          (''Server error: '' @ exn_text (Exn (''[Errno 13] Permission denied: ''
                                               @ squote ''/srv/public/secret.txt''))) fresh,
        Some (Exn (''[Errno 13] Permission denied: '' @ squote ''/srv/public/secret.txt'')))"
    by (simp add: do_GET_def ex_secret_raises)
  have r: "response ex_cfg ex_lib ex_fs ex_backend (ex_get ''/secret.txt'' [])
     = wfile (send_error ex_lib (ex_get ''/secret.txt'' []) 500
          (''Server error: '' @ exn_text (Exn (''[Errno 13] Permission denied: ''
                                               @ squote ''/srv/public/secret.txt''))) fresh)"
    using c d by (simp add: response_def handle_one_request_def)
  show ?thesis
    using b c d unfolding r
    by (simp add: send_error_fresh responses_def)
qed

text \<open>
  Claim C3, amended. When an exception is raised inside the \<open>try\<close> of \<open>do_GET\<close>, the
  response is 500 with the reason phrase \<open>Server error: \<close> followed by the text of the
  exception, the body is the error page of the library for that message, and the
  exception is raised again. When contacting the backend fails, the response is 502 with
  the reason phrase \<open>Proxy error: \<close> followed by the text of the exception, the body is
  the error page for that message, and no exception leaves \<open>do_GET\<close>. The error page
  contains its message, with \<open>&\<close>, \<open><\<close> and \<open>>\<close> escaped.
\<close>

theorem error_response_detail:
  "(do_GET_try cfg lib fs backend req head_only fresh = Inl e \<longrightarrow>
      (\<exists>h. do_GET cfg lib fs backend req head_only fresh = (h, Some e)
         \<and> wire_status (wfile h) = Some 500
         \<and> wire_reason (wfile h) = Some (''Server error: '' @ exn_text e)
         \<and> (command req \<noteq> ''HEAD'' \<longrightarrow>
              wire_body (wfile h) =
                utf8_encode (error_content 500 (''Server error: '' @ exn_text e)
                               ''Server got itself in trouble''))))
   \<and> (startswith (path req) ''/api'' \<and> proxy_request cfg lib req = Inr ob
        \<and> backend ob = Inl e \<longrightarrow>
      (\<exists>h. do_GET cfg lib fs backend req head_only fresh = (h, None)
         \<and> wire_status (wfile h) = Some 502
         \<and> wire_reason (wfile h) = Some (''Proxy error: '' @ exn_text e)
         \<and> (command req \<noteq> ''HEAD'' \<longrightarrow>
              wire_body (wfile h) =
                utf8_encode (error_content 502 (''Proxy error: '' @ exn_text e)
                               ''Invalid responses from another server/proxy''))))
   \<and> contains (error_content code message explain) (html_escape message)"
proof (intro conjI impI)
  assume "do_GET_try cfg lib fs backend req head_only fresh = Inl e"
  then have "do_GET cfg lib fs backend req head_only fresh
             = (send_error lib req 500 (''Server error: '' @ exn_text e) fresh, Some e)"
    by (simp add: do_GET_def)
  then show "\<exists>h. do_GET cfg lib fs backend req head_only fresh = (h, Some e)
         \<and> wire_status (wfile h) = Some 500
         \<and> wire_reason (wfile h) = Some (''Server error: '' @ exn_text e)
         \<and> (command req \<noteq> ''HEAD'' \<longrightarrow>
              wire_body (wfile h) =
                utf8_encode (error_content 500 (''Server error: '' @ exn_text e)
                               ''Server got itself in trouble''))"
    by (simp add: send_error_fresh responses_def)
next
  assume a: "startswith (path req) ''/api'' \<and> proxy_request cfg lib req = Inr ob
        \<and> backend ob = Inl e"
  then have ns: "path req \<noteq> ''/_status''" by (auto simp add: startswith_def)
  from a have "proxy_try cfg lib backend req fresh = Inl (e, fresh)"
    by (simp add: proxy_try_backend_down)
  with a ns have "do_GET cfg lib fs backend req head_only fresh
             = (send_error lib req 502 (''Proxy error: '' @ exn_text e) fresh, None)"
    by (simp add: do_GET_def do_GET_try_def handle_proxy_def)
  then show "\<exists>h. do_GET cfg lib fs backend req head_only fresh = (h, None)
         \<and> wire_status (wfile h) = Some 502
         \<and> wire_reason (wfile h) = Some (''Proxy error: '' @ exn_text e)
         \<and> (command req \<noteq> ''HEAD'' \<longrightarrow>
              wire_body (wfile h) =
                utf8_encode (error_content 502 (''Proxy error: '' @ exn_text e)
                               ''Invalid responses from another server/proxy''))"
    by (simp add: send_error_fresh responses_def)
next
  show "contains (error_content code message explain) (html_escape message)"
    by (rule error_content_contains_message)
qed

theorem error_response_detail_witness:
  "(\<exists>h. do_GET ex_cfg ex_lib ex_fs ex_backend (ex_get ''/secret.txt'' []) False fresh
          = (h, Some (Exn (''[Errno 13] Permission denied: '' @ squote ''/srv/public/secret.txt'')))
       \<and> wire_status (wfile h) = Some 500
       \<and> wire_reason (wfile h)
          = Some (''Server error: [Errno 13] Permission denied: ''
                  @ squote ''/srv/public/secret.txt''))
   \<and> (\<exists>h. do_GET ex_cfg ex_lib ex_fs ex_backend_down (ex_get ''/api/events'' []) False fresh
          = (h, None)
       \<and> wire_status (wfile h) = Some 502
       \<and> wire_reason (wfile h) = Some ''Proxy error: [Errno 111] Connection refused'')"
proof -
  have a: "startswith (path (ex_get ''/api/events'' [])) ''/api''" by code_simp
  have p: "isl (proxy_request ex_cfg ex_lib (ex_get ''/api/events'' [])) = False" by code_simp
  then obtain ob where ob: "proxy_request ex_cfg ex_lib (ex_get ''/api/events'' []) = Inr ob"
    by (cases "proxy_request ex_cfg ex_lib (ex_get ''/api/events'' [])") auto
  have dn: "ex_backend_down ob = Inl (Exn ''[Errno 111] Connection refused'')"
    by (simp add: ex_backend_down_def)
  note t = error_response_detail [of ex_cfg ex_lib ex_fs ex_backend "ex_get ''/secret.txt'' []"
      False "Exn (''[Errno 13] Permission denied: '' @ squote ''/srv/public/secret.txt'')"]
  from t [THEN conjunct1] ex_secret_raises [of ex_backend]
  have 1: "\<exists>h. do_GET ex_cfg ex_lib ex_fs ex_backend (ex_get ''/secret.txt'' []) False fresh
          = (h, Some (Exn (''[Errno 13] Permission denied: '' @ squote ''/srv/public/secret.txt'')))
       \<and> wire_status (wfile h) = Some 500
       \<and> wire_reason (wfile h)
          = Some (''Server error: [Errno 13] Permission denied: ''
                  @ squote ''/srv/public/secret.txt'')"
    by auto
  note u = error_response_detail [of ex_cfg ex_lib ex_fs ex_backend_down
      "ex_get ''/api/events'' []" False "Exn ''[Errno 111] Connection refused''" ob]
  from u [THEN conjunct2, THEN conjunct1] a ob dn
  have 2: "\<exists>h. do_GET ex_cfg ex_lib ex_fs ex_backend_down (ex_get ''/api/events'' []) False fresh
          = (h, None)
       \<and> wire_status (wfile h) = Some 502
       \<and> wire_reason (wfile h) = Some ''Proxy error: [Errno 111] Connection refused''"
    by auto
  from 1 2 show ?thesis by blast
qed

section \<open>The reverse proxy\<close>

text \<open>The dictionary of the outbound headers.\<close>

lemma dict_set_map_fst:
  "map fst (dict_set d k v) = (if k \<in> fst ` set d then map fst d else map fst d @ [k])"
  by (induction d) (auto simp add: image_iff, fastforce)

lemma dict_set_keys: "fst ` set (dict_set d k v) = insert k (fst ` set d)"
proof -
  have "set (map fst (dict_set d k v)) = insert k (set (map fst d))"
    unfolding dict_set_map_fst by auto
  then show ?thesis by simp
qed

lemma dict_set_new: "k \<notin> set (map fst d) \<Longrightarrow> dict_set d k v = d @ [(k, v)]"
  by (induction d) auto

lemma map_of_dict_set: "map_of (dict_set d k v) = (map_of d)(k \<mapsto> v)"
  by (induction d) auto

lemma foldl_dict_set_keys:
  "set (map fst (foldl (\<lambda>d (k, v). dict_set d k v) acc items))
   = set (map fst acc) \<union> set (map fst items)"
proof (induction items arbitrary: acc)
  case Nil
  then show ?case by simp
next
  case (Cons kv items)
  obtain k v where kv: "kv = (k, v)" by (cases kv)
  show ?case
    using Cons.IH [of "dict_set acc k v"] by (auto simp add: kv dict_set_keys)
qed

lemma foldl_dict_set_distinct:
  "distinct (map fst items) \<Longrightarrow> set (map fst acc) \<inter> set (map fst items) = {} \<Longrightarrow>
     foldl (\<lambda>d (k, v). dict_set d k v) acc items = acc @ items"
proof (induction items arbitrary: acc)
  case Nil
  then show ?case by simp
next
  case (Cons kv items)
  obtain k v where kv: "kv = (k, v)" by (cases kv)
  from Cons.prems have n: "k \<notin> set (map fst acc)" by (auto simp add: kv)
  have "foldl (\<lambda>d (k, v). dict_set d k v) (acc @ [(k, v)]) items = (acc @ [(k, v)]) @ items"
    using Cons.prems by (intro Cons.IH) (auto simp add: kv)
  then show ?case by (simp add: kv dict_set_new [OF n])
qed

lemma map_of_foldl_dict_set:
  "map_of (foldl (\<lambda>d (k, v). dict_set d k v) acc items) = map_of acc ++ map_of (rev items)"
proof (induction items arbitrary: acc)
  case Nil
  then show ?case by simp
next
  case (Cons kv items)
  obtain k v where kv: "kv = (k, v)" by (cases kv)
  have "(map_of acc)(k \<mapsto> v) ++ map_of (rev items)
        = map_of acc ++ (map_of (rev items) ++ [k \<mapsto> v] ++ map_of (rev items))"
    by (rule ext) (simp add: map_add_def split: option.splits)
  then show ?case
    by (simp add: kv Cons.IH map_of_dict_set) (auto simp add: map_add_def split: option.splits)
qed

lemma map_of_filter_key:
  "map_of (filter (\<lambda>(k, v). P k) xs) k = (if P k then map_of xs k else None)"
  by (induction xs) auto

lemma copy_headers_buffer:
  "copy_headers hs h =
     h\<lparr>headers_buffer := headers_buffer h
          @ map (\<lambda>(k, v). HeaderLine k v)
              (filter (\<lambda>(k, v). lower k \<noteq> ''transfer-encoding'' \<and> lower k \<noteq> ''connection'') hs)\<rparr>"
  by (induction hs arbitrary: h) (auto simp add: send_header_def)

lemma stream_response_prefix:
  "\<exists>xs h'. (stream_response rs h = Inr h' \<or> (\<exists>e. stream_response rs h = Inl (e, h')))
     \<and> wfile h' = wfile h @ xs \<and> headers_buffer h' = headers_buffer h"
proof (induction rs arbitrary: h)
  case Nil
  then show ?case by simp
next
  case (Cons r rs)
  show ?case
  proof (cases r)
    case (Inl e)
    then show ?thesis by simp
  next
    case (Inr chunk)
    show ?thesis
    proof (cases "chunk = []")
      case True
      with Inr show ?thesis by simp
    next
      case False
      from Cons.IH [of "wfile_write chunk h"] obtain xs h' where
        "(stream_response rs (wfile_write chunk h) = Inr h'
          \<or> (\<exists>e. stream_response rs (wfile_write chunk h) = Inl (e, h')))"
        "wfile h' = wfile (wfile_write chunk h) @ xs"
        "headers_buffer h' = headers_buffer (wfile_write chunk h)"
        by blast
      with Inr False show ?thesis
        by (auto simp add: wfile_write_def)
    qed
  qed
qed

lemma send_error_prefix:
  "\<exists>ys. wfile (send_error lib req code message h) = wfile h @ ys"
  by (simp add: send_error_def Let_def send_response_def send_response_only_def send_header_def
      end_headers_def wfile_write_def split: option.splits)

lemma header_fields_map:
  "header_fields (map (\<lambda>(k, v). HeaderLine k v) hs) = hs"
  by (induction hs) auto

lemma header_fields_append:
  "header_fields (xs @ ys) = header_fields xs @ header_fields ys"
  by (induction xs rule: header_fields.induct) auto

lemma nonhost_keys:
  "''Host'' \<notin> set (map fst (dict_of_items (filter (\<lambda>(k, v). lower k \<noteq> ''host'') hs)))"
proof -
  have l: "lower ''Host'' = ''host''" by code_simp
  have "set (map fst (dict_of_items (filter (\<lambda>(k, v). lower k \<noteq> ''host'') hs)))
        = set (map fst (filter (\<lambda>(k, v). lower k \<noteq> ''host'') hs))"
    unfolding dict_of_items_def foldl_dict_set_keys by simp
  then show ?thesis using l by auto
qed

lemma proxy_relay_head:
  assumes "proxy_request cfg lib req = Inr ob" and "backend ob = Inr resp"
  shows "\<exists>rest. wfile (handle_proxy cfg lib backend req fresh) =
     Head ([StatusLine (status resp) (reason resp),
            HeaderLine ''Server'' (version_string lib),
            HeaderLine ''Date'' (date_time_string lib)]
           @ map (\<lambda>(k, v). HeaderLine k v)
               (filter (\<lambda>(k, v). lower k \<noteq> ''transfer-encoding'' \<and> lower k \<noteq> ''connection'')
                  (getheaders resp))
           @ [HeaderLine ''Vary'' ''Accept-Encoding'']) # rest"
proof -
  let ?L = "[StatusLine (status resp) (reason resp),
            HeaderLine ''Server'' (version_string lib),
            HeaderLine ''Date'' (date_time_string lib)]
           @ map (\<lambda>(k, v). HeaderLine k v)
               (filter (\<lambda>(k, v). lower k \<noteq> ''transfer-encoding'' \<and> lower k \<noteq> ''connection'')
                  (getheaders resp))
           @ [HeaderLine ''Vary'' ''Accept-Encoding'']"
  let ?h4 = "\<lparr>headers_buffer = [], wfile = [Head ?L]\<rparr>"
  have t: "proxy_try cfg lib backend req fresh = stream_response (reads resp) ?h4"
    using assms
    by (simp add: proxy_try_def Let_def copy_headers_buffer send_response_def
        send_response_only_def send_header_def end_headers_def fresh_def)
  from stream_response_prefix [of "reads resp" ?h4] obtain xs h' where
    o: "stream_response (reads resp) ?h4 = Inr h'
        \<or> (\<exists>e. stream_response (reads resp) ?h4 = Inl (e, h'))"
    and w: "wfile h' = wfile ?h4 @ xs"
    by blast
  from o show ?thesis
  proof
    assume "stream_response (reads resp) ?h4 = Inr h'"
    with t w show ?thesis by (simp add: handle_proxy_def)
  next
    assume "\<exists>e. stream_response (reads resp) ?h4 = Inl (e, h')"
    then obtain e where e: "stream_response (reads resp) ?h4 = Inl (e, h')" by blast
    obtain ys where
      "wfile (send_error lib req 502 (''Proxy error: '' @ exn_text e) h') = wfile h' @ ys"
      using send_error_prefix by blast
    with t w e show ?thesis by (simp add: handle_proxy_def)
  qed
qed

text \<open>
  Claim C8 says that the outbound request preserves all request headers except \<open>Host\<close>.
  The headers go through a Python dictionary: of two \<open>Accept\<close> headers the backend
  receives the second only.
\<close>

theorem proxy_drops_repeated_header:
  "proxy_request ex_cfg ex_lib ex_dup
     = Inr \<lparr>ob_method = ''GET'', ob_url = ''/api/events'', ob_body = None,
            ob_headers = [(''Accept'', ''application/json''), (''Host'', ''backend'')]\<rparr>
   \<and> (''Accept'', ''text/html'') \<in> set (headers ex_dup)"
  by code_simp

text \<open>
  Claim C8, amended. The outbound request has the method and the full path of the
  request; no body without a \<open>Content-Length\<close>, and for a \<open>Content-Length\<close> that reads as
  an integer \<open>n \<ge> 0\<close> the first \<open>n\<close> bytes of the request stream; its headers are the
  request headers other than \<open>Host\<close>, in order, followed by \<open>Host\<close> with the backend
  host, provided no header name occurs twice, and in general every name other than
  \<open>Host\<close> carries the value of its last occurrence. The relayed response has the status
  and the reason of the backend and, between the two standard headers and \<open>Vary\<close>, the
  headers of the backend without \<open>Transfer-Encoding\<close> and \<open>Connection\<close>.
\<close>

theorem proxy_passthrough:
  assumes "proxy_request cfg lib req = Inr ob"
  shows "ob_method ob = command req \<and> ob_url ob = path req
    \<and> (headers_get (headers req) ''content-length'' = None \<longrightarrow> ob_body ob = None)
    \<and> (\<forall>v n. headers_get (headers req) ''content-length'' = Some v
              \<and> int_of_str lib v = Inr n \<and> 0 \<le> n
          \<longrightarrow> ob_body ob = Some (take (nat n) (rfile req)))
    \<and> (distinct (map fst (filter (\<lambda>(k, v). lower k \<noteq> ''host'') (headers req)))
          \<longrightarrow> ob_headers ob = filter (\<lambda>(k, v). lower k \<noteq> ''host'') (headers req)
                               @ [(''Host'', BACKEND_HOST cfg)])
    \<and> (\<forall>k. lower k \<noteq> ''host'' \<longrightarrow> map_of (ob_headers ob) k = map_of (rev (headers req)) k)
    \<and> map_of (ob_headers ob) ''Host'' = Some (BACKEND_HOST cfg)
    \<and> (\<forall>resp. backend ob = Inr resp \<longrightarrow>
          wire_status (wfile (handle_proxy cfg lib backend req fresh)) = Some (status resp)
          \<and> wire_reason (wfile (handle_proxy cfg lib backend req fresh)) = Some (reason resp)
          \<and> wire_headers (wfile (handle_proxy cfg lib backend req fresh)) =
               [(''Server'', version_string lib), (''Date'', date_time_string lib)]
               @ filter (\<lambda>(k, v). lower k \<noteq> ''transfer-encoding'' \<and> lower k \<noteq> ''connection'')
                   (getheaders resp)
               @ [(''Vary'', ''Accept-Encoding'')])"
proof -
  let ?nonhost = "filter (\<lambda>(k, v). lower k \<noteq> ''host'') (headers req)"
  have l: "lower ''Host'' = ''host''" by code_simp
  from assms have hd: "ob_headers ob = dict_set (dict_of_items ?nonhost) ''Host'' (BACKEND_HOST cfg)"
    and m: "ob_method ob = command req" and u: "ob_url ob = path req"
    by (auto simp add: proxy_request_def Let_def split: sum.splits option.splits)
  from hd have hd': "ob_headers ob = dict_of_items ?nonhost @ [(''Host'', BACKEND_HOST cfg)]"
    using dict_set_new [OF nonhost_keys] by simp
  have b1: "headers_get (headers req) ''content-length'' = None \<longrightarrow> ob_body ob = None"
    using assms by (auto simp add: proxy_request_def Let_def split: sum.splits option.splits)
  have b2: "\<forall>v n. headers_get (headers req) ''content-length'' = Some v
              \<and> int_of_str lib v = Inr n \<and> 0 \<le> n
          \<longrightarrow> ob_body ob = Some (take (nat n) (rfile req))"
    using assms
    by (auto simp add: proxy_request_def Let_def rfile_read_def split: sum.splits option.splits)
  have d: "distinct (map fst ?nonhost) \<longrightarrow> ob_headers ob = ?nonhost @ [(''Host'', BACKEND_HOST cfg)]"
    using foldl_dict_set_distinct [of ?nonhost "[]"] hd' by (simp add: dict_of_items_def)
  have k: "\<forall>k. lower k \<noteq> ''host'' \<longrightarrow> map_of (ob_headers ob) k = map_of (rev (headers req)) k"
  proof (intro allI impI)
    fix k assume nk: "lower k \<noteq> ''host''"
    then have "k \<noteq> ''Host''" using l by auto
    then have "map_of (ob_headers ob) k = map_of (rev ?nonhost) k"
      by (simp add: hd map_of_dict_set dict_of_items_def map_of_foldl_dict_set)
    also have "\<dots> = map_of (filter (\<lambda>(k, v). lower k \<noteq> ''host'') (rev (headers req))) k"
      by (simp add: rev_filter)
    also have "\<dots> = map_of (rev (headers req)) k"
      using nk map_of_filter_key [of "\<lambda>k. lower k \<noteq> ''host''" "rev (headers req)" k] by simp
    finally show "map_of (ob_headers ob) k = map_of (rev (headers req)) k" .
  qed
  have h: "map_of (ob_headers ob) ''Host'' = Some (BACKEND_HOST cfg)"
    by (simp add: hd map_of_dict_set)
  have r: "\<forall>resp. backend ob = Inr resp \<longrightarrow>
          wire_status (wfile (handle_proxy cfg lib backend req fresh)) = Some (status resp)
          \<and> wire_reason (wfile (handle_proxy cfg lib backend req fresh)) = Some (reason resp)
          \<and> wire_headers (wfile (handle_proxy cfg lib backend req fresh)) =
               [(''Server'', version_string lib), (''Date'', date_time_string lib)]
               @ filter (\<lambda>(k, v). lower k \<noteq> ''transfer-encoding'' \<and> lower k \<noteq> ''connection'')
                   (getheaders resp)
               @ [(''Vary'', ''Accept-Encoding'')]"
  proof (intro allI impI)
    fix resp assume br: "backend ob = Inr resp"
    from proxy_relay_head [where backend = backend, OF assms br] obtain rest where
      "wfile (handle_proxy cfg lib backend req fresh) =
         Head ([StatusLine (status resp) (reason resp),
            HeaderLine ''Server'' (version_string lib),
            HeaderLine ''Date'' (date_time_string lib)]
           @ map (\<lambda>(k, v). HeaderLine k v)
               (filter (\<lambda>(k, v). lower k \<noteq> ''transfer-encoding'' \<and> lower k \<noteq> ''connection'')
                  (getheaders resp))
           @ [HeaderLine ''Vary'' ''Accept-Encoding'']) # rest"
      by blast
    then show "wire_status (wfile (handle_proxy cfg lib backend req fresh)) = Some (status resp)
          \<and> wire_reason (wfile (handle_proxy cfg lib backend req fresh)) = Some (reason resp)
          \<and> wire_headers (wfile (handle_proxy cfg lib backend req fresh)) =
               [(''Server'', version_string lib), (''Date'', date_time_string lib)]
               @ filter (\<lambda>(k, v). lower k \<noteq> ''transfer-encoding'' \<and> lower k \<noteq> ''connection'')
                   (getheaders resp)
               @ [(''Vary'', ''Accept-Encoding'')]"
      by (simp add: header_fields_append header_fields_map)
  qed
  from m u b1 b2 d k h r show ?thesis by blast
qed

theorem proxy_passthrough_witness:
  "\<exists>ob. proxy_request ex_cfg ex_lib ex_post = Inr ob
     \<and> ob_method ob = ''GET'' \<and> ob_url ob = ''/api/events?x=1''
     \<and> ob_body ob = Some ''{}''
     \<and> ob_headers ob = [(''Accept'', ''*/*''), (''Content-Length'', ''2''), (''Host'', ''backend'')]
     \<and> wire_status (wfile (handle_proxy ex_cfg ex_lib ex_backend ex_post fresh)) = Some 201
     \<and> wire_headers (wfile (handle_proxy ex_cfg ex_lib ex_backend ex_post fresh))
        = [(''Server'', ''MiniNginx/0.1 Python/3.11.10''),
           (''Date'', ''Tue, 03 Nov 2026 23:06:44 GMT''),
           (''Content-Type'', ''application/json; charset=utf-8''),
           (''ETag'', ''abc''),
           (''Vary'', ''Accept-Encoding'')]"
proof -
  have "\<not> isl (proxy_request ex_cfg ex_lib ex_post)" by code_simp
  then obtain ob where ob: "proxy_request ex_cfg ex_lib ex_post = Inr ob"
    by (cases "proxy_request ex_cfg ex_lib ex_post") auto
  have f: "command ex_post = ''GET''" "path ex_post = ''/api/events?x=1''"
    "headers_get (headers ex_post) ''content-length'' = Some ''2''"
    "int_of_str ex_lib ''2'' = Inr 2"
    "take (nat 2) (rfile ex_post) = ''{}''"
    "distinct (map fst (filter (\<lambda>(k, v). lower k \<noteq> ''host'') (headers ex_post)))"
    "filter (\<lambda>(k, v). lower k \<noteq> ''host'') (headers ex_post)
     = [(''Accept'', ''*/*''), (''Content-Length'', ''2'')]"
    "BACKEND_HOST ex_cfg = ''backend''"
    "version_string ex_lib = ''MiniNginx/0.1 Python/3.11.10''"
    "date_time_string ex_lib = ''Tue, 03 Nov 2026 23:06:44 GMT''"
    by code_simp+
  have g: "lower ''Transfer-Encoding'' = ''transfer-encoding''"
    "lower ''connection'' = ''connection''"
    by code_simp+
  note t = proxy_passthrough [OF ob, of ex_backend]
  from t f(3,4) have b: "ob_body ob = Some ''{}''"
    using f(5) by auto
  from t f(6,7,8) have h: "ob_headers ob
      = [(''Accept'', ''*/*''), (''Content-Length'', ''2''), (''Host'', ''backend'')]"
    by simp
  from t have "wire_status (wfile (handle_proxy ex_cfg ex_lib ex_backend ex_post fresh)) = Some 201
     \<and> wire_headers (wfile (handle_proxy ex_cfg ex_lib ex_backend ex_post fresh))
        = [(''Server'', ''MiniNginx/0.1 Python/3.11.10''),
           (''Date'', ''Tue, 03 Nov 2026 23:06:44 GMT''),
           (''Content-Type'', ''application/json; charset=utf-8''),
           (''ETag'', ''abc''),
           (''Vary'', ''Accept-Encoding'')]"
    by (simp add: ex_backend_def g f(9,10))
  with t ob b h f(1,2) show ?thesis by auto
qed

end
